theory Spec2Isabelle
  imports Main "HOL-Library.Word"
begin

section \<open>The StableSwap client of \<^verbatim>\<open>lib/client/src/stable-swap.ts\<close>\<close>

text \<open>
  The client is one class, \<^verbatim>\<open>StableSwap\<close>, with two static factories
  (\<^verbatim>\<open>loadStableSwap\<close>, \<^verbatim>\<open>createStableSwap\<close>), a static rent query and three methods
  (\<^verbatim>\<open>swap\<close>, \<^verbatim>\<open>deposit\<close>, \<^verbatim>\<open>withdraw\<close>). It imports \<^verbatim>\<open>./instructions\<close>,
  \<^verbatim>\<open>./layout\<close>, \<^verbatim>\<open>./util/account\<close>, \<^verbatim>\<open>./util/send-and-confirm-transaction\<close> and
  \<^verbatim>\<open>./util/u64\<close>, whose sources are not available; those parts are modelled from the
  written specification and marked so. Types of \<^verbatim>\<open>@solana/web3.js\<close> are modelled by
  what the client does with them.

  Every \<^verbatim>\<open>async\<close> function runs sequentially between its \<^verbatim>\<open>await\<close>s, so a call is a
  function from the ledger state before the call to a result and the ledger state after
  it. A thrown exception (a rejected promise) is \<open>Inl\<close> of an \<open>error\<close>.
  Parameters and local constants keep the names of the source; where one has the name
  of a field it is bound by a \<open>\<lambda>\<close> or a \<open>let\<close>, which hides the field inside
  the body.
\<close>

subsection \<open>Values\<close>

type_synonym byte = "8 word"
type_synonym Buffer = "byte list"

text \<open>\<^verbatim>\<open>new PublicKey(bytes)\<close> and \<^verbatim>\<open>key.toBuffer()\<close>.\<close>

datatype PublicKey = PublicKey Buffer

fun toBuffer :: "PublicKey \<Rightarrow> Buffer" where
  "toBuffer (PublicKey b) = b"

text \<open>
  \<^verbatim>\<open>Numberu64\<close> extends an arbitrary-precision integer, so a value of the class can hold
  any integer; the range is checked where a value is encoded.
\<close>

datatype Numberu64 = Numberu64 int

text \<open>
  An amount argument has the type \<^verbatim>\<open>number | Numberu64\<close>. A \<^verbatim>\<open>number\<close> is modelled
  as an integer: fractions, NaN and infinities are outside the model.
\<close>

datatype amount = Num int | U64 Numberu64

record Account =
  publicKey :: PublicKey
  secretKey :: Buffer

text \<open>
  A \<^verbatim>\<open>Connection\<close> is the client's handle on the transport, with its configuration;
  the state of the ledger behind it is the record \<open>Ledger\<close> below.
\<close>

record Connection =
  endpoint :: string
  maxAttempts :: nat

type_synonym TransactionSignature = string

datatype error =
    Error string
  | AccountNotFound
  | MalformedAccountError
  | ValueOutOfRangeError
  | DerivationFailed
  | SubmissionError string
  | TransportError string
  | ConfirmationTimeoutError
  | ProgramRejectedError

text \<open>
  Sequencing of calls that can throw: the first error ends the computation, as an
  exception that nothing catches does.
\<close>

definition andThen :: "error + 'a \<Rightarrow> ('a \<Rightarrow> error + 'b) \<Rightarrow> error + 'b" where
  "andThen r f = (case r of Inl e \<Rightarrow> Inl e | Inr v \<Rightarrow> f v)"

subsection \<open>Instructions and transactions\<close>

record AccountMeta =
  pubkey :: PublicKey
  isWritable :: bool

definition readonly :: "PublicKey \<Rightarrow> AccountMeta" where
  "readonly k = \<lparr>pubkey = k, isWritable = False\<rparr>"

definition writable :: "PublicKey \<Rightarrow> AccountMeta" where
  "writable k = \<lparr>pubkey = k, isWritable = True\<rparr>"

record TransactionInstruction =
  keys :: "AccountMeta list"
  programId :: PublicKey
  data :: Buffer

text \<open>
  \<^verbatim>\<open>SystemProgram.createAccount({fromPubkey, newAccountPubkey, lamports, space, programId})\<close>
  belongs to the web3 library; it is kept as the request it was built from.
\<close>

record CreateAccountParams =
  fromPubkey :: PublicKey
  newAccountPubkey :: PublicKey
  lamports :: nat
  space :: nat
  owner :: PublicKey

datatype Instruction =
    SystemCreateAccount CreateAccountParams
  | ProgramInstruction TransactionInstruction

record Transaction =
  instructions :: "Instruction list"

definition Transaction_new :: Transaction where
  "Transaction_new = \<lparr>instructions = []\<rparr>"

definition Transaction_add :: "Transaction \<Rightarrow> Instruction \<Rightarrow> Transaction" where
  "Transaction_add t i = t\<lparr>instructions := instructions t @ [i]\<rparr>"

record SignedTransaction =
  transaction :: Transaction
  feePayer :: PublicKey
  signedBy :: "PublicKey list"

subsection \<open>The ledger transport\<close>

datatype ConfirmationStatus = Pending | Confirmed | Failed

text \<open>
  The collaborator of section 6 of the specification: \<open>fetchAccount\<close>,
  \<open>sendTransaction\<close>, \<open>getConfirmationStatus\<close> (the answer to the \<open>n\<close>-th poll for a
  signature) and \<open>minimumBalanceForRentExemption\<close>. The source awaits the rent query,
  so the query can fail as any request to the transport can: it answers with the
  lamports or with the message of the failure. \<open>sent\<close> is the list of the signed
  transactions handed to \<open>sendTransaction\<close> so far, oldest first, each with the
  connection it went through.
\<close>

record Ledger =
  fetchAccount :: "PublicKey \<Rightarrow> Buffer option"
  minimumBalanceForRentExemption :: "nat \<Rightarrow> string + nat"
  sendTransaction :: "SignedTransaction \<Rightarrow> string + TransactionSignature"
  getConfirmationStatus :: "TransactionSignature \<Rightarrow> nat \<Rightarrow> ConfirmationStatus"
  sent :: "(Connection \<times> SignedTransaction) list"

subsection \<open>64-bit values (\<^verbatim>\<open>./util/u64\<close>)\<close>

text \<open>The largest value the specification lets an amount have.\<close>

definition u64_MAX :: int where
  "u64_MAX = 2 ^ 64 - 1"

text \<open>
  Modelled from the spec: \<^verbatim>\<open>Numberu64.toBuffer\<close> of \<^verbatim>\<open>./util/u64\<close> is missing. The
  specification makes the value serializable to an 8-byte little-endian buffer: byte
  \<open>i\<close> is digit \<open>i\<close> of the value in base 256.
\<close>

fun Numberu64_toBuffer :: "Numberu64 \<Rightarrow> Buffer" where
  "Numberu64_toBuffer (Numberu64 n) = map (\<lambda>i. word_of_int (n div 256 ^ i)) [0..<8]"

text \<open>
  Modelled from the spec: the reading of a buffer in \<^verbatim>\<open>./util/u64\<close> is missing. The
  specification makes the value constructible from an 8-byte little-endian buffer: the
  first byte is the least significant.
\<close>

fun le_value :: "Buffer \<Rightarrow> int" where
  "le_value [] = 0"
| "le_value (b # bs) = uint b + 256 * le_value bs"

text \<open>
  Modelled from the spec: \<^verbatim>\<open>Numberu64.fromBuffer\<close> of \<^verbatim>\<open>./util/u64\<close> is missing; it is
  the little-endian value of the buffer, as just said.
\<close>

definition Numberu64_fromBuffer :: "Buffer \<Rightarrow> Numberu64" where
  "Numberu64_fromBuffer buffer = Numberu64 (le_value buffer)"

text \<open>
  Modelled from the spec: the normalisation of an amount argument in \<^verbatim>\<open>./instructions\<close>
  is missing. Section 4.2 accepts a plain integer or a wrapped value and rejects
  negative values and values above \<open>2^64 - 1\<close> with \<open>ValueOutOfRangeError\<close>.
\<close>

definition in_u64_range :: "int \<Rightarrow> bool" where
  "in_u64_range n = (0 \<le> n \<and> n \<le> u64_MAX)"

text \<open>The integer that an amount argument stands for, plain or wrapped.\<close>

fun amount_value :: "amount \<Rightarrow> int" where
  "amount_value (Num n) = n"
| "amount_value (U64 (Numberu64 n)) = n"

text \<open>
  Modelled from the spec: the normalisation step of \<^verbatim>\<open>./instructions\<close> is missing;
  section 9 asks for one canonical value type behind the boundary, here \<open>Numberu64\<close>,
  and section 4.2 for the rejection.
\<close>

definition toU64 :: "amount \<Rightarrow> error + Numberu64" where
  "toU64 a = (if in_u64_range (amount_value a) then Inr (Numberu64 (amount_value a))
              else Inl ValueOutOfRangeError)"

subsection \<open>The account layout (\<^verbatim>\<open>./layout\<close>)\<close>

text \<open>
  The fields that \<^verbatim>\<open>loadStableSwap\<close> reads from the decoded record. The fields that
  share a name with a field of the client carry the suffix \<open>_raw\<close>.
\<close>

record StableSwapData =
  isInitialized :: bool
  tokenPool :: Buffer
  tokenAccountA_raw :: Buffer
  tokenAccountB_raw :: Buffer
  mintA_raw :: Buffer
  mintB_raw :: Buffer
  tokenProgramId_raw :: Buffer
  ampFactor_raw :: Buffer
  feeNumerator_raw :: Buffer
  feeDenominator_raw :: Buffer

definition subarray :: "nat \<Rightarrow> nat \<Rightarrow> 'a list \<Rightarrow> 'a list" where
  "subarray off len xs = take len (drop off xs)"

text \<open>
  Modelled from the spec: \<^verbatim>\<open>StableSwapLayout\<close> of \<^verbatim>\<open>./layout\<close> is missing. Section
  4.1 gives a one-byte initialization flag, then 32-byte keys in the order pool token
  mint, token account A, token account B, mint A, mint B, token-program id, then three
  8-byte little-endian integers (amplification factor, fee numerator, fee denominator).
  The section leaves the end of the key list open; the model has the six keys it names.
  Decoding fails with \<open>MalformedAccountError\<close> when the length is not the span or the
  flag byte is neither 0 nor 1.
\<close>

definition StableSwapLayout_span :: nat where
  "StableSwapLayout_span = 1 + 6 * 32 + 3 * 8"

text \<open>
  Modelled from the spec: the field offsets of \<^verbatim>\<open>StableSwapLayout\<close> are missing; they
  follow from the widths and the order of section 4.1.
\<close>

definition StableSwapLayout_fields :: "bool \<Rightarrow> Buffer \<Rightarrow> StableSwapData" where
  "StableSwapLayout_fields flag b =
     \<lparr>isInitialized = flag,
      tokenPool = subarray 1 32 b,
      tokenAccountA_raw = subarray 33 32 b,
      tokenAccountB_raw = subarray 65 32 b,
      mintA_raw = subarray 97 32 b,
      mintB_raw = subarray 129 32 b,
      tokenProgramId_raw = subarray 161 32 b,
      ampFactor_raw = subarray 193 8 b,
      feeNumerator_raw = subarray 201 8 b,
      feeDenominator_raw = subarray 209 8 b\<rparr>"

text \<open>
  Modelled from the spec: \<^verbatim>\<open>StableSwapLayout.decode\<close> is missing; section 4.1 gives its
  two failures and its result.
\<close>

definition StableSwapLayout_decode :: "Buffer \<Rightarrow> error + StableSwapData" where
  "StableSwapLayout_decode b =
     (if length b \<noteq> StableSwapLayout_span then Inl MalformedAccountError
      else if hd b = 0 then Inr (StableSwapLayout_fields False b)
      else if hd b = 1 then Inr (StableSwapLayout_fields True b)
      else Inl MalformedAccountError)"

subsection \<open>Fetching an account (\<^verbatim>\<open>./util/account\<close>)\<close>

text \<open>
  Modelled from the spec: \<^verbatim>\<open>loadAccount\<close> of \<^verbatim>\<open>./util/account\<close> is missing. Section
  4.4 has the loader fetch the raw account bytes from the transport, whose
  \<open>fetchAccount\<close> answers with the bytes or with not-found. The specification gives the
  program id no part in the fetch.
\<close>

definition loadAccount ::
  "Ledger \<Rightarrow> Connection \<Rightarrow> PublicKey \<Rightarrow> PublicKey \<Rightarrow> error + Buffer" where
  "loadAccount = (\<lambda>ledger connection address programId.
     case fetchAccount ledger address of
       None \<Rightarrow> Inl AccountNotFound
     | Some bytes \<Rightarrow> Inr bytes)"

subsection \<open>Submitting a transaction (\<^verbatim>\<open>./util/send-and-confirm-transaction\<close>)\<close>

text \<open>
  Modelled from the spec: the confirmation loop of
  \<^verbatim>\<open>./util/send-and-confirm-transaction\<close> is missing. Section 4.3 bounds the number of
  polls: here at most \<open>n\<close> polls, starting with poll number \<open>i\<close>; a poll that finds
  the transaction confirmed or failed ends the loop.
\<close>

fun awaitConfirmation ::
  "Ledger \<Rightarrow> TransactionSignature \<Rightarrow> nat \<Rightarrow> nat \<Rightarrow> error + TransactionSignature" where
  "awaitConfirmation ledger signature i 0 = Inl ConfirmationTimeoutError"
| "awaitConfirmation ledger signature i (Suc n) =
     (case getConfirmationStatus ledger signature i of
        Confirmed \<Rightarrow> Inr signature
      | Failed \<Rightarrow> Inl ProgramRejectedError
      | Pending \<Rightarrow> awaitConfirmation ledger signature (Suc i) n)"

text \<open>
  Modelled from the spec: \<^verbatim>\<open>sendAndConfirmTransaction\<close> of
  \<^verbatim>\<open>./util/send-and-confirm-transaction\<close> is missing. Section 4.3: the transaction is
  assembled from the instructions, signed by the fee payer and the extra signers, and
  submitted; a transport failure is \<open>SubmissionError\<close>; an accepted transaction is polled
  a bounded number of times, and ends confirmed (the signature), rejected
  (\<open>ProgramRejectedError\<close>) or still pending (\<open>ConfirmationTimeoutError\<close>). The bound is
  the \<open>maxAttempts\<close> of the connection. There is no local side effect; the title is for
  diagnostics only.
\<close>

definition sendAndConfirmTransaction ::
  "string \<Rightarrow> Ledger \<Rightarrow> Connection \<Rightarrow> Transaction \<Rightarrow> Account \<Rightarrow> Account list
   \<Rightarrow> (error + TransactionSignature) \<times> Ledger" where
  "sendAndConfirmTransaction = (\<lambda>title ledger connection transaction payer signers.
     let signed = \<lparr>transaction = transaction,
                   feePayer = publicKey payer,
                   signedBy = map publicKey (payer # signers)\<rparr>;
         ledger' = ledger\<lparr>sent := sent ledger @ [(connection, signed)]\<rparr>
     in case sendTransaction ledger signed of
          Inl message \<Rightarrow> (Inl (SubmissionError message), ledger')
        | Inr signature \<Rightarrow>
            (awaitConfirmation ledger signature 0 (maxAttempts connection), ledger'))"

subsection \<open>The instruction encoders (\<^verbatim>\<open>./instructions\<close>)\<close>

text \<open>
  The four encoders are pure: they take no ledger and return none. An account
  reference is a key with its writability flag; section 4.2 fixes no signer flag for
  any reference, so the model has none. The payload is the tag byte followed by the
  arguments.
\<close>

text \<open>
  Modelled from the spec: \<^verbatim>\<open>createInitSwapInstruction\<close> of \<^verbatim>\<open>./instructions\<close> is
  missing. Section 4.2, \<open>initialize\<close>: tag 0; payload the nonce (one byte) and three
  8-byte integers; accounts pool account (writable), authority, token account A, token
  account B, pool token mint (writable), destination pool token account (writable),
  token-program reference. The caller in \<^verbatim>\<open>createStableSwap\<close> passes the keypair of the
  pool account, whose public key is the reference, and no token program: the
  token-program reference is a constant of the missing module, here the first
  parameter. The nonce is one byte on the wire and is a byte in the model.
\<close>

definition createInitSwapInstruction ::
  "PublicKey \<Rightarrow> Account \<Rightarrow> PublicKey \<Rightarrow> PublicKey \<Rightarrow> PublicKey \<Rightarrow> PublicKey \<Rightarrow> PublicKey
   \<Rightarrow> PublicKey \<Rightarrow> byte \<Rightarrow> amount \<Rightarrow> amount \<Rightarrow> amount \<Rightarrow> error + TransactionInstruction" where
  "createInitSwapInstruction = (\<lambda>TOKEN_PROGRAM_ID tokenSwapAccount authority tokenAccountA
       tokenAccountB tokenPool tokenAccountPool swapProgramId nonce ampFactor
       feeNumerator feeDenominator.
     andThen (toU64 ampFactor) (\<lambda>amp.
     andThen (toU64 feeNumerator) (\<lambda>num.
     andThen (toU64 feeDenominator) (\<lambda>den.
       Inr \<lparr>keys = [writable (publicKey tokenSwapAccount),
                    readonly authority,
                    readonly tokenAccountA,
                    readonly tokenAccountB,
                    writable tokenPool,
                    writable tokenAccountPool,
                    readonly TOKEN_PROGRAM_ID],
            programId = swapProgramId,
            data = 0 # nonce # Numberu64_toBuffer amp @ Numberu64_toBuffer num
                     @ Numberu64_toBuffer den\<rparr>))))"

text \<open>
  Modelled from the spec: \<^verbatim>\<open>swapInstruction\<close> of \<^verbatim>\<open>./instructions\<close> is missing.
  Section 4.2, \<open>swap\<close>: tag 1; payload two 8-byte integers (amount in, minimum amount
  out); accounts pool, authority, user source (writable), pool source (writable), pool
  destination (writable), user destination (writable), token program.
\<close>

definition swapInstruction ::
  "PublicKey \<Rightarrow> PublicKey \<Rightarrow> PublicKey \<Rightarrow> PublicKey \<Rightarrow> PublicKey \<Rightarrow> PublicKey \<Rightarrow> PublicKey
   \<Rightarrow> PublicKey \<Rightarrow> amount \<Rightarrow> amount \<Rightarrow> error + TransactionInstruction" where
  "swapInstruction = (\<lambda>tokenSwap authority userSource poolSource poolDestination
       userDestination swapProgramId tokenProgramId amountIn minimumAmountOut.
     andThen (toU64 amountIn) (\<lambda>amt.
     andThen (toU64 minimumAmountOut) (\<lambda>minOut.
       Inr \<lparr>keys = [readonly tokenSwap,
                    readonly authority,
                    writable userSource,
                    writable poolSource,
                    writable poolDestination,
                    writable userDestination,
                    readonly tokenProgramId],
            programId = swapProgramId,
            data = 1 # Numberu64_toBuffer amt @ Numberu64_toBuffer minOut\<rparr>)))"

text \<open>
  Modelled from the spec: \<^verbatim>\<open>depositInstruction\<close> of \<^verbatim>\<open>./instructions\<close> is missing.
  Section 4.2, \<open>deposit\<close>: tag 2; payload three 8-byte integers (token amount A, token
  amount B, minimum pool token amount); accounts pool, authority, user account A
  (writable), user account B (writable), pool token account A (writable), pool token
  account B (writable), pool token mint (writable), destination pool account
  (writable), token program. The parameters are in the order of the call in
  \<^verbatim>\<open>deposit\<close>.
\<close>

definition depositInstruction ::
  "PublicKey \<Rightarrow> PublicKey \<Rightarrow> PublicKey \<Rightarrow> PublicKey \<Rightarrow> PublicKey \<Rightarrow> PublicKey \<Rightarrow> PublicKey
   \<Rightarrow> PublicKey \<Rightarrow> PublicKey \<Rightarrow> PublicKey \<Rightarrow> amount \<Rightarrow> amount \<Rightarrow> amount
   \<Rightarrow> error + TransactionInstruction" where
  "depositInstruction = (\<lambda>tokenSwap authority sourceA sourceB intoA intoB poolTokenMint
       poolTokenAccount swapProgramId tokenProgramId tokenAmountA tokenAmountB
       minimumPoolTokenAmount.
     andThen (toU64 tokenAmountA) (\<lambda>amtA.
     andThen (toU64 tokenAmountB) (\<lambda>amtB.
     andThen (toU64 minimumPoolTokenAmount) (\<lambda>minPool.
       Inr \<lparr>keys = [readonly tokenSwap,
                    readonly authority,
                    writable sourceA,
                    writable sourceB,
                    writable intoA,
                    writable intoB,
                    writable poolTokenMint,
                    writable poolTokenAccount,
                    readonly tokenProgramId],
            programId = swapProgramId,
            data = 2 # Numberu64_toBuffer amtA @ Numberu64_toBuffer amtB
                     @ Numberu64_toBuffer minPool\<rparr>))))"

text \<open>
  Modelled from the spec: \<^verbatim>\<open>withdrawInstruction\<close> of \<^verbatim>\<open>./instructions\<close> is missing.
  Section 4.2, \<open>withdraw\<close>: tag 3; payload three 8-byte integers (pool token amount,
  minimum token A, minimum token B); accounts pool, authority, pool token mint
  (writable), source pool account (writable), pool token account A (writable), pool
  token account B (writable), user account A (writable), user account B (writable),
  token program. The parameters are in the order of the call in \<^verbatim>\<open>withdraw\<close>.
\<close>

definition withdrawInstruction ::
  "PublicKey \<Rightarrow> PublicKey \<Rightarrow> PublicKey \<Rightarrow> PublicKey \<Rightarrow> PublicKey \<Rightarrow> PublicKey \<Rightarrow> PublicKey
   \<Rightarrow> PublicKey \<Rightarrow> PublicKey \<Rightarrow> PublicKey \<Rightarrow> amount \<Rightarrow> amount \<Rightarrow> amount
   \<Rightarrow> error + TransactionInstruction" where
  "withdrawInstruction = (\<lambda>tokenSwap authority poolMint sourcePoolAccount fromA fromB
       userAccountA userAccountB swapProgramId tokenProgramId poolTokenAmount
       minimumTokenA minimumTokenB.
     andThen (toU64 poolTokenAmount) (\<lambda>amt.
     andThen (toU64 minimumTokenA) (\<lambda>minA.
     andThen (toU64 minimumTokenB) (\<lambda>minB.
       Inr \<lparr>keys = [readonly tokenSwap,
                    readonly authority,
                    writable poolMint,
                    writable sourcePoolAccount,
                    writable fromA,
                    writable fromB,
                    writable userAccountA,
                    writable userAccountB,
                    readonly tokenProgramId],
            programId = swapProgramId,
            data = 3 # Numberu64_toBuffer amt @ Numberu64_toBuffer minA
                     @ Numberu64_toBuffer minB\<rparr>))))"

subsection \<open>The class \<^verbatim>\<open>StableSwap\<close>\<close>

record StableSwap =
  connection :: Connection
  swapProgramId :: PublicKey
  tokenProgramId :: PublicKey
  stableSwap :: PublicKey
  poolToken :: PublicKey
  authority :: PublicKey
  tokenAccountA :: PublicKey
  tokenAccountB :: PublicKey
  mintA :: PublicKey
  mintB :: PublicKey
  ampFactor :: Numberu64
  feeNumerator :: Numberu64
  feeDenominator :: Numberu64
  payer :: Account

text \<open>The constructor stores each parameter in the field of its name (lines 106-136).\<close>

definition StableSwap_new ::
  "Connection \<Rightarrow> PublicKey \<Rightarrow> PublicKey \<Rightarrow> PublicKey \<Rightarrow> PublicKey \<Rightarrow> PublicKey \<Rightarrow> PublicKey
   \<Rightarrow> PublicKey \<Rightarrow> PublicKey \<Rightarrow> PublicKey \<Rightarrow> Numberu64 \<Rightarrow> Numberu64 \<Rightarrow> Numberu64 \<Rightarrow> Account
   \<Rightarrow> StableSwap" where
  "StableSwap_new = (\<lambda>connection stableSwap swapProgramId tokenProgramId poolToken authority
       tokenAccountA tokenAccountB mintA mintB ampFactor feeNumerator feeDenominator payer.
     \<lparr>connection = connection,
      swapProgramId = swapProgramId,
      tokenProgramId = tokenProgramId,
      stableSwap = stableSwap,
      poolToken = poolToken,
      authority = authority,
      tokenAccountA = tokenAccountA,
      tokenAccountB = tokenAccountB,
      mintA = mintA,
      mintB = mintB,
      ampFactor = ampFactor,
      feeNumerator = feeNumerator,
      feeDenominator = feeDenominator,
      payer = payer\<rparr>)"

text \<open>
  \<^verbatim>\<open>getMinBalanceRentForExemptStableSwap\<close> (lines 143-149): the awaited query for the
  span of the layout. A failure of the transport is thrown on to the caller.
\<close>

definition getMinBalanceRentForExemptStableSwap :: "Ledger \<Rightarrow> Connection \<Rightarrow> error + nat" where
  "getMinBalanceRentForExemptStableSwap = (\<lambda>ledger connection.
     case minimumBalanceForRentExemption ledger StableSwapLayout_span of
       Inl message \<Rightarrow> Inl (TransportError message)
     | Inr balance \<Rightarrow> Inr balance)"

text \<open>
  \<^verbatim>\<open>loadStableSwap\<close> (lines 158-201). \<^verbatim>\<open>PublicKey.findProgramAddress\<close> is a
  cryptographic primitive of the web3 library and is the first parameter: from the
  seeds and the program id it gives the derived address and its bump, or fails. The
  loader only reads the ledger, so it returns no ledger.
\<close>

definition loadStableSwap ::
  "(Buffer list \<Rightarrow> PublicKey \<Rightarrow> (PublicKey \<times> nat) option) \<Rightarrow> Ledger \<Rightarrow> Connection
   \<Rightarrow> PublicKey \<Rightarrow> PublicKey \<Rightarrow> Account \<Rightarrow> error + StableSwap" where
  "loadStableSwap = (\<lambda>findProgramAddress ledger connection address programId payer.
     andThen (loadAccount ledger connection address programId) (\<lambda>data.
     andThen (StableSwapLayout_decode data) (\<lambda>stableSwapData.
     if \<not> isInitialized stableSwapData then Inl (Error ''Invalid token swap state'')
     else
     andThen (case findProgramAddress [toBuffer address] programId of
                None \<Rightarrow> Inl DerivationFailed
              | Some derived \<Rightarrow> Inr derived) (\<lambda>(authority, bump).
     let poolToken = PublicKey (tokenPool stableSwapData);
         tokenAccountA = PublicKey (tokenAccountA_raw stableSwapData);
         tokenAccountB = PublicKey (tokenAccountB_raw stableSwapData);
         mintA = PublicKey (mintA_raw stableSwapData);
         mintB = PublicKey (mintB_raw stableSwapData);
         tokenProgramId = PublicKey (tokenProgramId_raw stableSwapData);
         ampFactor = Numberu64_fromBuffer (ampFactor_raw stableSwapData);
         feeNumerator = Numberu64_fromBuffer (feeNumerator_raw stableSwapData);
         feeDenominator = Numberu64_fromBuffer (feeDenominator_raw stableSwapData)
     in Inr (StableSwap_new connection address programId tokenProgramId poolToken
               authority tokenAccountA tokenAccountB mintA mintB ampFactor feeNumerator
               feeDenominator payer)))))"

text \<open>
  \<^verbatim>\<open>createStableSwap\<close> (lines 222-296). The client object is built first, from the
  arguments; then the rent query, whose failure ends the call before anything is built;
  then the two instructions and the submission, with the keypair of the new account as
  the extra signer. The field \<open>owner\<close> of the
  create-account request is the \<^verbatim>\<open>programId\<close> of the source's request. The amounts are
  \<^verbatim>\<open>number\<close>s here, and the nonce is the byte that goes on the wire. The
  token-program reference of the initialize encoder is the first parameter.
\<close>

definition createStableSwap ::
  "PublicKey \<Rightarrow> Ledger \<Rightarrow> Connection \<Rightarrow> Account \<Rightarrow> Account \<Rightarrow> PublicKey \<Rightarrow> PublicKey
   \<Rightarrow> PublicKey \<Rightarrow> PublicKey \<Rightarrow> PublicKey \<Rightarrow> PublicKey \<Rightarrow> PublicKey \<Rightarrow> PublicKey \<Rightarrow> PublicKey
   \<Rightarrow> byte \<Rightarrow> int \<Rightarrow> int \<Rightarrow> int \<Rightarrow> (error + StableSwap) \<times> Ledger" where
  "createStableSwap = (\<lambda>TOKEN_PROGRAM_ID ledger connection payer stableSwapAccount
       authority tokenAccountA tokenAccountB poolToken mintA mintB tokenAccountPool
       swapProgramId tokenProgramId nonce ampFactor feeNumerator feeDenominator.
     let stableSwap = StableSwap_new connection (publicKey stableSwapAccount)
           swapProgramId tokenProgramId poolToken authority tokenAccountA tokenAccountB
           mintA mintB (Numberu64 ampFactor) (Numberu64 feeNumerator)
           (Numberu64 feeDenominator) payer
     in case getMinBalanceRentForExemptStableSwap ledger connection of
          Inl e \<Rightarrow> (Inl e, ledger)
        | Inr balanceNeeded \<Rightarrow>
            (let transaction = Transaction_add Transaction_new
                   (SystemCreateAccount
                      \<lparr>fromPubkey = publicKey payer,
                       newAccountPubkey = publicKey stableSwapAccount,
                       lamports = balanceNeeded,
                       space = StableSwapLayout_span,
                       owner = swapProgramId\<rparr>)
             in (case createInitSwapInstruction TOKEN_PROGRAM_ID stableSwapAccount
                        authority tokenAccountA tokenAccountB poolToken tokenAccountPool
                        swapProgramId nonce (Num ampFactor) (Num feeNumerator)
                        (Num feeDenominator) of
                   Inl e \<Rightarrow> (Inl e, ledger)
                 | Inr instruction \<Rightarrow>
                     (case sendAndConfirmTransaction ''createAccount and InitializeSwap''
                             ledger connection
                             (Transaction_add transaction (ProgramInstruction instruction))
                             payer [stableSwapAccount] of
                        (Inl e, ledger') \<Rightarrow> (Inl e, ledger')
                      | (Inr signature, ledger') \<Rightarrow> (Inr stableSwap, ledger')))))"

text \<open>
  The three methods (lines 307-416). A method returns its result, the object it was
  called on as it is after the call, and the ledger after the call. The instruction is
  an argument of the submission, so it is built before anything is submitted, and an
  error of the encoder ends the call there.
\<close>

definition swap ::
  "StableSwap \<Rightarrow> Ledger \<Rightarrow> PublicKey \<Rightarrow> PublicKey \<Rightarrow> PublicKey \<Rightarrow> PublicKey \<Rightarrow> amount
   \<Rightarrow> amount \<Rightarrow> (error + TransactionSignature) \<times> StableSwap \<times> Ledger" where
  "swap = (\<lambda>this ledger userSource poolSource poolDestination userDestination amountIn
       minimumAmountOut.
     case swapInstruction (stableSwap this) (authority this) userSource poolSource
            poolDestination userDestination (swapProgramId this) (tokenProgramId this)
            amountIn minimumAmountOut of
       Inl e \<Rightarrow> (Inl e, this, ledger)
     | Inr instruction \<Rightarrow>
         (case sendAndConfirmTransaction ''swap'' ledger (connection this)
                 (Transaction_add Transaction_new (ProgramInstruction instruction))
                 (payer this) [] of
            (result, ledger') \<Rightarrow> (result, this, ledger')))"

definition deposit ::
  "StableSwap \<Rightarrow> Ledger \<Rightarrow> PublicKey \<Rightarrow> PublicKey \<Rightarrow> PublicKey \<Rightarrow> amount \<Rightarrow> amount
   \<Rightarrow> amount \<Rightarrow> (error + TransactionSignature) \<times> StableSwap \<times> Ledger" where
  "deposit = (\<lambda>this ledger userAccountA userAccountB poolAccount tokenAmountA tokenAmountB
       minimumPoolTokenAmount.
     case depositInstruction (stableSwap this) (authority this) userAccountA
            userAccountB (tokenAccountA this) (tokenAccountB this) (poolToken this)
            poolAccount (swapProgramId this) (tokenProgramId this) tokenAmountA
            tokenAmountB minimumPoolTokenAmount of
       Inl e \<Rightarrow> (Inl e, this, ledger)
     | Inr instruction \<Rightarrow>
         (case sendAndConfirmTransaction ''deposit'' ledger (connection this)
                 (Transaction_add Transaction_new (ProgramInstruction instruction))
                 (payer this) [] of
            (result, ledger') \<Rightarrow> (result, this, ledger')))"

definition withdraw ::
  "StableSwap \<Rightarrow> Ledger \<Rightarrow> PublicKey \<Rightarrow> PublicKey \<Rightarrow> PublicKey \<Rightarrow> amount \<Rightarrow> amount
   \<Rightarrow> amount \<Rightarrow> (error + TransactionSignature) \<times> StableSwap \<times> Ledger" where
  "withdraw = (\<lambda>this ledger userAccountA userAccountB poolAccount poolTokenAmount
       minimumTokenA minimumTokenB.
     case withdrawInstruction (stableSwap this) (authority this) (poolToken this)
            poolAccount (tokenAccountA this) (tokenAccountB this) userAccountA
            userAccountB (swapProgramId this) (tokenProgramId this) poolTokenAmount
            minimumTokenA minimumTokenB of
       Inl e \<Rightarrow> (Inl e, this, ledger)
     | Inr instruction \<Rightarrow>
         (case sendAndConfirmTransaction ''withdraw'' ledger (connection this)
                 (Transaction_add Transaction_new (ProgramInstruction instruction))
                 (payer this) [] of
            (result, ledger') \<Rightarrow> (result, this, ledger')))"

subsection \<open>Notions of the specification\<close>

text \<open>
  The account-reference list of an instruction as the specification writes it: the
  keys in order, each with its writability flag.
\<close>

definition references :: "TransactionInstruction \<Rightarrow> (PublicKey \<times> bool) list" where
  "references ix = map (\<lambda>k. (pubkey k, isWritable k)) (keys ix)"

text \<open>
  The specification calls the failure of the loader on an uninitialized pool
  \<open>PoolNotInitializedError\<close>. The source has no error class of that name: line 167
  throws a plain \<^verbatim>\<open>Error\<close> with a fixed message.
\<close>

definition PoolNotInitializedError :: error where
  "PoolNotInitializedError = Error ''Invalid token swap state''"

subsection \<open>Concrete inputs\<close>

text \<open>
  Keys, keypairs, a connection, an account blob and a ledger on which the theorems
  below are run. The blob has the flag byte given, the six keys \<open>1\<close> to \<open>6\<close>, and the
  integers 100, 4 and 10000. The ledger holds initialized pools at keys 20 and 23 and
  uninitialized ones at keys 21 and 22; it refuses a transaction paid by key 40 and
  confirms any other at the third poll; it answers every rent query. The second
  ledger is the first with the rent query failing. The example derivation adds the
  bytes of the seed and of the program id.
\<close>

definition example_key :: "byte \<Rightarrow> PublicKey" where
  "example_key b = PublicKey (replicate 32 b)"

definition example_account :: "byte \<Rightarrow> Account" where
  "example_account b = \<lparr>publicKey = example_key b, secretKey = replicate 64 b\<rparr>"

definition example_connection :: Connection where
  "example_connection = \<lparr>endpoint = ''http://localhost:8899'', maxAttempts = 3\<rparr>"

definition example_blob :: "byte \<Rightarrow> Buffer" where
  "example_blob flag =
     flag # replicate 32 1 @ replicate 32 2 @ replicate 32 3 @ replicate 32 4
       @ replicate 32 5 @ replicate 32 6
       @ [100, 0, 0, 0, 0, 0, 0, 0] @ [4, 0, 0, 0, 0, 0, 0, 0] @ [16, 39, 0, 0, 0, 0, 0, 0]"

definition example_ledger :: Ledger where
  "example_ledger =
     \<lparr>fetchAccount = (\<lambda>a. if a = example_key 20 then Some (example_blob 1)
                          else if a = example_key 23 then Some (example_blob 1)
                          else if a = example_key 21 then Some (example_blob 0)
                          else if a = example_key 22 then Some (example_blob 0)
                          else None),
      minimumBalanceForRentExemption = (\<lambda>n. Inr (890880 + 6960 * n)),
      sendTransaction = (\<lambda>t. if feePayer t = example_key 40 then Inl ''insufficient funds''
                              else Inr ''5VERv8NMvzbJMEkV8xnrLkEaWRtSz9CosKDYjCJjBRnb''),
      getConfirmationStatus = (\<lambda>s n. if n < 2 then Pending else Confirmed),
      sent = []\<rparr>"

definition example_ledger_rent_down :: Ledger where
  "example_ledger_rent_down =
     example_ledger\<lparr>minimumBalanceForRentExemption := (\<lambda>n. Inl ''429 Too Many Requests'')\<rparr>"

definition example_findProgramAddress ::
  "Buffer list \<Rightarrow> PublicKey \<Rightarrow> (PublicKey \<times> nat) option" where
  "example_findProgramAddress seeds p =
     Some (PublicKey (map2 (+) (concat seeds) (toBuffer p)), 255)"

definition example_client :: "PublicKey \<Rightarrow> StableSwap" where
  "example_client a =
     \<lparr>connection = example_connection,
      swapProgramId = example_key 30,
      tokenProgramId = example_key 6,
      stableSwap = example_key 20,
      poolToken = example_key 1,
      authority = a,
      tokenAccountA = example_key 2,
      tokenAccountB = example_key 3,
      mintA = example_key 4,
      mintB = example_key 5,
      ampFactor = Numberu64 100,
      feeNumerator = Numberu64 4,
      feeDenominator = Numberu64 10000,
      payer = example_account 41\<rparr>"

section \<open>Properties\<close>

subsection \<open>Sequencing and the collaborators\<close>

lemma andThen_Inl [simp]: "andThen (Inl e) f = Inl e"
  by (simp add: andThen_def)

lemma andThen_Inr [simp]: "andThen (Inr v) f = f v"
  by (simp add: andThen_def)

lemma andThen_eq_Inr: "andThen r f = Inr y \<longleftrightarrow> (\<exists>v. r = Inr v \<and> f v = Inr y)"
  by (cases r) simp_all

lemma andThen_eq_Inl:
  "andThen r f = Inl e \<longleftrightarrow> r = Inl e \<or> (\<exists>v. r = Inr v \<and> f v = Inl e)"
  by (cases r) simp_all

lemmas encoder_defs =
  createInitSwapInstruction_def swapInstruction_def depositInstruction_def
  withdrawInstruction_def

lemmas range_defs = toU64_def in_u64_range_def u64_MAX_def

text \<open>The decoder succeeds exactly on a blob of the span whose flag byte is 0 or 1.\<close>

lemma StableSwapLayout_decode_Inr:
  "StableSwapLayout_decode b = Inr d \<longleftrightarrow>
     length b = StableSwapLayout_span \<and> (hd b = 0 \<or> hd b = 1) \<and>
     d = StableSwapLayout_fields (hd b = 1) b"
  by (auto simp: StableSwapLayout_decode_def)

text \<open>The little-endian reading inverts the little-endian writing on the 64-bit range.\<close>

lemma le_value_digits:
  "le_value (map (\<lambda>i. word_of_int (n div 256 ^ i)) [k..<k + m]) = (n div 256 ^ k) mod 256 ^ m"
proof (induction m arbitrary: k)
  case 0
  show ?case by simp
next
  case (Suc m)
  have "[k..<k + Suc m] = k # [Suc k..<Suc k + m]"
    by (simp add: upt_rec)
  moreover have "uint (word_of_int (n div 256 ^ k) :: byte) = (n div 256 ^ k) mod 256"
    by (simp add: uint_word_of_int)
  moreover have "n div 256 ^ Suc k = n div 256 ^ k div 256"
  proof -
    have "n div 256 ^ Suc k = n div (256 ^ k * 256)"
      by (simp add: mult.commute)
    also have "\<dots> = n div 256 ^ k div 256"
      by (rule zdiv_zmult2_eq) simp
    finally show ?thesis .
  qed
  moreover have "(n div 256 ^ k) mod (256 * 256 ^ m)
      = 256 * (n div 256 ^ k div 256 mod 256 ^ m) + (n div 256 ^ k) mod 256"
    by (rule zmod_zmult2_eq) simp
  ultimately show ?case
    using Suc.IH [of "Suc k"] by simp
qed

lemma le_value_toBuffer:
  assumes "in_u64_range n"
  shows "le_value (Numberu64_toBuffer (Numberu64 n)) = n"
proof -
  have "le_value (Numberu64_toBuffer (Numberu64 n)) = (n div 256 ^ 0) mod 256 ^ 8"
    using le_value_digits [of n 0 8] by simp
  with assms show ?thesis
    by (simp add: in_u64_range_def u64_MAX_def)
qed

text \<open>
  What a submission does to the ledger: it appends the signed transaction to the list
  of the submitted ones, whatever the outcome, and nothing else.
\<close>

lemma sendAndConfirmTransaction_sent:
  "sendAndConfirmTransaction title L conn tx fp signers = (r, L') \<Longrightarrow>
     L' = L\<lparr>sent := sent L @ [(conn, \<lparr>transaction = tx, feePayer = publicKey fp,
                                        signedBy = map publicKey (fp # signers)\<rparr>)]\<rparr>"
  by (auto simp: sendAndConfirmTransaction_def Let_def split: sum.splits)

text \<open>
  What a method submits: one transaction, on the connection of the client, holding the
  one instruction that the encoder built from the fields of the client and the
  arguments of the call, paid and signed by the payer of the client alone.
\<close>

lemma swap_submits:
  assumes "swapInstruction (stableSwap c) (authority c) us ps pd ud (swapProgramId c)
             (tokenProgramId c) a m = Inr ix"
    and "swap c L us ps pd ud a m = (r, c', L')"
  shows "sent L' = sent L @
           [(connection c, \<lparr>transaction = \<lparr>instructions = [ProgramInstruction ix]\<rparr>,
                            feePayer = publicKey (payer c),
                            signedBy = [publicKey (payer c)]\<rparr>)]"
  using assms
  by (auto simp: swap_def Transaction_add_def Transaction_new_def
           split: prod.splits dest!: sendAndConfirmTransaction_sent)

lemma deposit_submits:
  assumes "depositInstruction (stableSwap c) (authority c) uA uB (tokenAccountA c)
             (tokenAccountB c) (poolToken c) pa (swapProgramId c) (tokenProgramId c)
             a1 a2 a3 = Inr ix"
    and "deposit c L uA uB pa a1 a2 a3 = (r, c', L')"
  shows "sent L' = sent L @
           [(connection c, \<lparr>transaction = \<lparr>instructions = [ProgramInstruction ix]\<rparr>,
                            feePayer = publicKey (payer c),
                            signedBy = [publicKey (payer c)]\<rparr>)]"
  using assms
  by (auto simp: deposit_def Transaction_add_def Transaction_new_def
           split: prod.splits dest!: sendAndConfirmTransaction_sent)

lemma withdraw_submits:
  assumes "withdrawInstruction (stableSwap c) (authority c) (poolToken c) pa
             (tokenAccountA c) (tokenAccountB c) uA uB (swapProgramId c)
             (tokenProgramId c) a1 a2 a3 = Inr ix"
    and "withdraw c L uA uB pa a1 a2 a3 = (r, c', L')"
  shows "sent L' = sent L @
           [(connection c, \<lparr>transaction = \<lparr>instructions = [ProgramInstruction ix]\<rparr>,
                            feePayer = publicKey (payer c),
                            signedBy = [publicKey (payer c)]\<rparr>)]"
  using assms
  by (auto simp: withdraw_def Transaction_add_def Transaction_new_def
           split: prod.splits dest!: sendAndConfirmTransaction_sent)

subsection \<open>The loader, case by case\<close>

lemma loadStableSwap_Inr:
  "loadStableSwap fpa L conn addr pid fp = Inr c \<longleftrightarrow>
     (\<exists>blob d a bump.
        loadAccount L conn addr pid = Inr blob \<and>
        StableSwapLayout_decode blob = Inr d \<and>
        isInitialized d \<and>
        fpa [toBuffer addr] pid = Some (a, bump) \<and>
        c = \<lparr>connection = conn, swapProgramId = pid,
             tokenProgramId = PublicKey (tokenProgramId_raw d),
             stableSwap = addr,
             poolToken = PublicKey (tokenPool d),
             authority = a,
             tokenAccountA = PublicKey (tokenAccountA_raw d),
             tokenAccountB = PublicKey (tokenAccountB_raw d),
             mintA = PublicKey (mintA_raw d),
             mintB = PublicKey (mintB_raw d),
             ampFactor = Numberu64_fromBuffer (ampFactor_raw d),
             feeNumerator = Numberu64_fromBuffer (feeNumerator_raw d),
             feeDenominator = Numberu64_fromBuffer (feeDenominator_raw d),
             payer = fp\<rparr>)"
  by (auto simp: loadStableSwap_def andThen_eq_Inr StableSwap_new_def Let_def
           split: option.splits if_splits)

lemma loadStableSwap_Inl:
  "loadStableSwap fpa L conn addr pid fp = Inl e \<longleftrightarrow>
     loadAccount L conn addr pid = Inl e \<or>
     (\<exists>blob. loadAccount L conn addr pid = Inr blob \<and>
        (StableSwapLayout_decode blob = Inl e \<or>
         (\<exists>d. StableSwapLayout_decode blob = Inr d \<and>
            (if isInitialized d
             then fpa [toBuffer addr] pid = None \<and> e = DerivationFailed
             else e = Error ''Invalid token swap state''))))"
  by (auto simp: loadStableSwap_def andThen_eq_Inl StableSwap_new_def Let_def
           split: option.splits if_splits)

subsection \<open>The concrete inputs, evaluated\<close>

lemma example_key_eq [simp]: "example_key a = example_key b \<longleftrightarrow> a = b"
  by (simp add: example_key_def)

lemma example_blob_decode:
  "StableSwapLayout_decode (example_blob 1) = Inr (StableSwapLayout_fields True (example_blob 1))"
  "StableSwapLayout_decode (example_blob 0) = Inr (StableSwapLayout_fields False (example_blob 0))"
  by (simp_all add: StableSwapLayout_decode_def StableSwapLayout_span_def example_blob_def)

lemma example_loadAccount:
  "loadAccount example_ledger conn (example_key 20) pid = Inr (example_blob 1)"
  "loadAccount example_ledger conn (example_key 23) pid = Inr (example_blob 1)"
  "loadAccount example_ledger conn (example_key 21) pid = Inr (example_blob 0)"
  "loadAccount example_ledger conn (example_key 22) pid = Inr (example_blob 0)"
  by (simp_all add: loadAccount_def example_ledger_def)

lemma example_derivation:
  "example_findProgramAddress [toBuffer (example_key 20)] (example_key 30)
     = Some (example_key 50, 255)"
  by (simp add: example_findProgramAddress_def example_key_def)

lemma example_load:
  "loadStableSwap example_findProgramAddress example_ledger example_connection
     (example_key 20) (example_key 30) (example_account 41)
   = Inr (example_client (example_key 50))"
  by (simp add: loadStableSwap_def example_loadAccount example_blob_decode example_derivation
      StableSwapLayout_fields_def StableSwap_new_def example_client_def
      Numberu64_fromBuffer_def)
    (simp add: subarray_def example_blob_def example_key_def)

lemma example_load_other:
  "\<exists>c. loadStableSwap example_findProgramAddress example_ledger
          \<lparr>endpoint = ''http://localhost:8900'', maxAttempts = 5\<rparr>
          (example_key 23) (example_key 31) (example_account 42) = Inr c"
  by (simp add: loadStableSwap_def example_loadAccount example_blob_decode
      example_findProgramAddress_def StableSwapLayout_fields_def)

lemma example_create:
  "\<exists>L'. createStableSwap (example_key 6) example_ledger example_connection
      (example_account 41) (example_account 20) auth (example_key 2) (example_key 3)
      (example_key 1) (example_key 4) (example_key 5) (example_key 9) (example_key 30)
      (example_key 6) 255 100 4 10000 = (Inr (example_client auth), L')"
  by (simp add: createStableSwap_def getMinBalanceRentForExemptStableSwap_def
      createInitSwapInstruction_def range_defs sendAndConfirmTransaction_def
      example_ledger_def example_connection_def example_account_def example_client_def
      StableSwap_new_def Let_def numeral_3_eq_3)

subsection \<open>The authority of a constructed client\<close>

text \<open>
  C1, as amended. A client returned by \<^verbatim>\<open>loadStableSwap\<close> has as its authority the
  address that \<^verbatim>\<open>findProgramAddress\<close> derives from the bytes of the pool account
  address and the program id, and has that address and program id as its own. A client
  returned by \<^verbatim>\<open>createStableSwap\<close> has as its authority the argument \<^verbatim>\<open>authority\<close>
  of the call, as given: the function derives nothing and compares nothing.
\<close>

theorem constructed_client_authority:
  "(loadStableSwap fpa L conn addr pid fp = Inr c \<longrightarrow>
      (\<exists>bump. fpa [toBuffer addr] pid = Some (authority c, bump)) \<and>
      stableSwap c = addr \<and> swapProgramId c = pid) \<and>
   (createStableSwap tp L conn fp acct auth tA tB pool mA mB dest prog tok nonce amp fn fd
      = (Inr c', L') \<longrightarrow>
      authority c' = auth \<and> stableSwap c' = publicKey acct \<and> swapProgramId c' = prog)"
  by (auto simp: loadStableSwap_Inr createStableSwap_def Let_def StableSwap_new_def
           split: sum.splits prod.splits)

text \<open>
  The amended statement on the example ledger: the loaded client of the pool at key 20
  under program 30 has the derived authority, key 50; the created client has the
  authority it was given, key 7.
\<close>

theorem constructed_client_authority_witness:
  "(\<exists>bump. example_findProgramAddress [toBuffer (example_key 20)] (example_key 30)
       = Some (authority (example_client (example_key 50)), bump)) \<and>
   stableSwap (example_client (example_key 50)) = example_key 20 \<and>
   swapProgramId (example_client (example_key 50)) = example_key 30 \<and>
   authority (example_client (example_key 7)) = example_key 7 \<and>
   stableSwap (example_client (example_key 7)) = publicKey (example_account 20) \<and>
   swapProgramId (example_client (example_key 7)) = example_key 30"
proof -
  obtain L' where created:
    "createStableSwap (example_key 6) example_ledger example_connection
       (example_account 41) (example_account 20) (example_key 7) (example_key 2)
       (example_key 3) (example_key 1) (example_key 4) (example_key 5) (example_key 9)
       (example_key 30) (example_key 6) 255 100 4 10000
     = (Inr (example_client (example_key 7)), L')"
    using example_create [of "example_key 7"] by blast
  from constructed_client_authority [THEN conjunct1, rule_format, OF example_load]
    constructed_client_authority [THEN conjunct2, rule_format, OF created]
  show ?thesis by simp
qed

text \<open>
  C1 as stated fails for \<^verbatim>\<open>createStableSwap\<close>. Two calls that differ only in the
  argument \<^verbatim>\<open>authority\<close> (key 7, key 8) both succeed, for the same pool account
  (key 20) and program (key 30), and return clients with the two different
  authorities; no derivation from the pool address and the program id gives both, and
  the example derivation gives neither (key 50).
\<close>

theorem createStableSwap_authority_counterexample:
  "fst (createStableSwap (example_key 6) example_ledger example_connection
          (example_account 41) (example_account 20) (example_key 7) (example_key 2)
          (example_key 3) (example_key 1) (example_key 4) (example_key 5) (example_key 9)
          (example_key 30) (example_key 6) 255 100 4 10000)
     = Inr (example_client (example_key 7)) \<and>
   fst (createStableSwap (example_key 6) example_ledger example_connection
          (example_account 41) (example_account 20) (example_key 8) (example_key 2)
          (example_key 3) (example_key 1) (example_key 4) (example_key 5) (example_key 9)
          (example_key 30) (example_key 6) 255 100 4 10000)
     = Inr (example_client (example_key 8)) \<and>
   authority (example_client (example_key 7)) = example_key 7 \<and>
   authority (example_client (example_key 8)) = example_key 8 \<and>
   stableSwap (example_client (example_key 7)) = stableSwap (example_client (example_key 8)) \<and>
   swapProgramId (example_client (example_key 7)) = swapProgramId (example_client (example_key 8)) \<and>
   example_key 7 \<noteq> example_key 8 \<and>
   example_findProgramAddress [toBuffer (example_key 20)] (example_key 30)
     = Some (example_key 50, 255) \<and>
   example_key 7 \<noteq> example_key 50 \<and> example_key 8 \<noteq> example_key 50"
proof -
  obtain L7 where c7:
    "createStableSwap (example_key 6) example_ledger example_connection
       (example_account 41) (example_account 20) (example_key 7) (example_key 2)
       (example_key 3) (example_key 1) (example_key 4) (example_key 5) (example_key 9)
       (example_key 30) (example_key 6) 255 100 4 10000
     = (Inr (example_client (example_key 7)), L7)"
    using example_create [of "example_key 7"] by blast
  obtain L8 where c8:
    "createStableSwap (example_key 6) example_ledger example_connection
       (example_account 41) (example_account 20) (example_key 8) (example_key 2)
       (example_key 3) (example_key 1) (example_key 4) (example_key 5) (example_key 9)
       (example_key 30) (example_key 6) 255 100 4 10000
     = (Inr (example_client (example_key 8)), L8)"
    using example_create [of "example_key 8"] by blast
  show ?thesis
    by (simp add: c7 c8 example_derivation) (simp add: example_client_def)
qed

subsection \<open>The account references of the four instructions\<close>

text \<open>
  C2. Whenever an encoder returns an instruction, its account references are the list
  of section 4.2, in length, in order and in writability: seven for \<open>initialize\<close> and
  \<open>swap\<close>, nine for \<open>deposit\<close> and \<open>withdraw\<close>; for \<open>swap\<close> they are pool, authority,
  user source (writable), pool source (writable), pool destination (writable), user
  destination (writable), token program.
\<close>

theorem account_reference_lists:
  "(createInitSwapInstruction tp acct auth tA tB pool dest prog nonce amp fn fd = Inr ix0 \<longrightarrow>
      references ix0 = [(publicKey acct, True), (auth, False), (tA, False), (tB, False),
                        (pool, True), (dest, True), (tp, False)] \<and>
      length (keys ix0) = 7) \<and>
   (swapInstruction p auth us ps pd ud prog tok a m = Inr ix1 \<longrightarrow>
      references ix1 = [(p, False), (auth, False), (us, True), (ps, True), (pd, True),
                        (ud, True), (tok, False)] \<and>
      length (keys ix1) = 7) \<and>
   (depositInstruction p auth uA uB pA pB mint dst prog tok a1 a2 a3 = Inr ix2 \<longrightarrow>
      references ix2 = [(p, False), (auth, False), (uA, True), (uB, True), (pA, True),
                        (pB, True), (mint, True), (dst, True), (tok, False)] \<and>
      length (keys ix2) = 9) \<and>
   (withdrawInstruction p auth mint src pA pB uA uB prog tok a1 a2 a3 = Inr ix3 \<longrightarrow>
      references ix3 = [(p, False), (auth, False), (mint, True), (src, True), (pA, True),
                        (pB, True), (uA, True), (uB, True), (tok, False)] \<and>
      length (keys ix3) = 9)"
  by (auto simp: encoder_defs andThen_eq_Inr references_def readonly_def writable_def)

text \<open>
  The four encoders on the keys of the example client and amounts in range: each
  returns an instruction, and its references are the list above.
\<close>

theorem account_reference_lists_witness:
  "\<exists>ix0 ix1 ix2 ix3.
     createInitSwapInstruction (example_key 6) (example_account 20) (example_key 50)
       (example_key 2) (example_key 3) (example_key 1) (example_key 9) (example_key 30)
       255 (Num 100) (Num 4) (Num 10000) = Inr ix0 \<and>
     references ix0 = [(example_key 20, True), (example_key 50, False),
       (example_key 2, False), (example_key 3, False), (example_key 1, True),
       (example_key 9, True), (example_key 6, False)] \<and>
     swapInstruction (example_key 20) (example_key 50) (example_key 11) (example_key 2)
       (example_key 3) (example_key 12) (example_key 30) (example_key 6)
       (Num 1000) (Num 990) = Inr ix1 \<and>
     references ix1 = [(example_key 20, False), (example_key 50, False),
       (example_key 11, True), (example_key 2, True), (example_key 3, True),
       (example_key 12, True), (example_key 6, False)] \<and>
     depositInstruction (example_key 20) (example_key 50) (example_key 11) (example_key 12)
       (example_key 2) (example_key 3) (example_key 1) (example_key 13) (example_key 30)
       (example_key 6) (Num 100) (Num 4) (Num 10000) = Inr ix2 \<and>
     references ix2 = [(example_key 20, False), (example_key 50, False),
       (example_key 11, True), (example_key 12, True), (example_key 2, True),
       (example_key 3, True), (example_key 1, True), (example_key 13, True),
       (example_key 6, False)] \<and>
     withdrawInstruction (example_key 20) (example_key 50) (example_key 1) (example_key 13)
       (example_key 2) (example_key 3) (example_key 11) (example_key 12) (example_key 30)
       (example_key 6) (Num 100) (Num 4) (Num 10000) = Inr ix3 \<and>
     references ix3 = [(example_key 20, False), (example_key 50, False),
       (example_key 1, True), (example_key 13, True), (example_key 2, True),
       (example_key 3, True), (example_key 11, True), (example_key 12, True),
       (example_key 6, False)]"
proof -
  obtain ix0 where h0:
    "createInitSwapInstruction (example_key 6) (example_account 20) (example_key 50)
       (example_key 2) (example_key 3) (example_key 1) (example_key 9) (example_key 30)
       255 (Num 100) (Num 4) (Num 10000) = Inr ix0"
    by (simp add: createInitSwapInstruction_def range_defs)
  obtain ix1 where h1:
    "swapInstruction (example_key 20) (example_key 50) (example_key 11) (example_key 2)
       (example_key 3) (example_key 12) (example_key 30) (example_key 6)
       (Num 1000) (Num 990) = Inr ix1"
    by (simp add: swapInstruction_def range_defs)
  obtain ix2 where h2:
    "depositInstruction (example_key 20) (example_key 50) (example_key 11) (example_key 12)
       (example_key 2) (example_key 3) (example_key 1) (example_key 13) (example_key 30)
       (example_key 6) (Num 100) (Num 4) (Num 10000) = Inr ix2"
    by (simp add: depositInstruction_def range_defs)
  obtain ix3 where h3:
    "withdrawInstruction (example_key 20) (example_key 50) (example_key 1) (example_key 13)
       (example_key 2) (example_key 3) (example_key 11) (example_key 12) (example_key 30)
       (example_key 6) (Num 100) (Num 4) (Num 10000) = Inr ix3"
    by (simp add: withdrawInstruction_def range_defs)
  have pk: "publicKey (example_account 20) = example_key 20"
    by (simp add: example_account_def)
  from account_reference_lists [THEN conjunct1, rule_format, OF h0]
    account_reference_lists [THEN conjunct2, THEN conjunct1, rule_format, OF h1]
    account_reference_lists [THEN conjunct2, THEN conjunct2, THEN conjunct1, rule_format, OF h2]
    account_reference_lists [THEN conjunct2, THEN conjunct2, THEN conjunct2, rule_format, OF h3]
    h0 h1 h2 h3 pk
  show ?thesis by simp
qed

subsection \<open>The payload of a swap\<close>

text \<open>
  C3. The swap encoder on amount in 1000 and minimum amount out 990 returns an
  instruction whose payload is the tag byte 1, the eight bytes of 1000 and the eight
  bytes of 990, least significant byte first: 17 bytes.
\<close>

theorem swap_payload_1000_990:
  "map_sum id data (swapInstruction p auth us ps pd ud prog tok (Num 1000) (Num 990))
     = Inr ([1] @ [232, 3, 0, 0, 0, 0, 0, 0] @ [222, 3, 0, 0, 0, 0, 0, 0]) \<and>
   length ([1] @ [232, 3, 0, 0, 0, 0, 0, 0] @ [222, 3, 0, 0, 0, 0, 0, 0 :: byte]) = 17 \<and>
   le_value [232, 3, 0, 0, 0, 0, 0, 0] = 1000 \<and>
   le_value [222, 3, 0, 0, 0, 0, 0, 0] = 990"
  by (simp add: swapInstruction_def range_defs upt_rec)

subsection \<open>Loading an uninitialized pool\<close>

text \<open>
  C4. When the fetched blob decodes and its initialization flag is false,
  \<^verbatim>\<open>loadStableSwap\<close> fails with the error of line 167, which the specification calls
  \<open>PoolNotInitializedError\<close>, and so returns no client; when the flag is true it does
  not fail with that error.
\<close>

theorem uninitialized_pool_rejected:
  assumes "loadAccount L conn addr pid = Inr blob"
    and "StableSwapLayout_decode blob = Inr d"
  shows "(\<not> isInitialized d \<longrightarrow>
            loadStableSwap fpa L conn addr pid fp = Inl PoolNotInitializedError) \<and>
         (isInitialized d \<longrightarrow>
            loadStableSwap fpa L conn addr pid fp \<noteq> Inl PoolNotInitializedError)"
  using assms by (auto simp: loadStableSwap_Inl PoolNotInitializedError_def)

text \<open>
  On the example ledger the pool at key 21 has the flag byte 0 and the load fails with
  the error; the pool at key 20 has the flag byte 1 and the load does not.
\<close>

theorem uninitialized_pool_rejected_witness:
  "\<not> isInitialized (StableSwapLayout_fields False (example_blob 0)) \<and>
   loadStableSwap example_findProgramAddress example_ledger example_connection
     (example_key 21) (example_key 30) (example_account 41) = Inl PoolNotInitializedError \<and>
   isInitialized (StableSwapLayout_fields True (example_blob 1)) \<and>
   loadStableSwap example_findProgramAddress example_ledger example_connection
     (example_key 20) (example_key 30) (example_account 41) \<noteq> Inl PoolNotInitializedError"
proof -
  have no: "\<not> isInitialized (StableSwapLayout_fields False (example_blob 0))"
    and yes: "isInitialized (StableSwapLayout_fields True (example_blob 1))"
    by (simp_all add: StableSwapLayout_fields_def)
  from uninitialized_pool_rejected
      [where fpa = example_findProgramAddress and fp = "example_account 41",
        OF example_loadAccount(3) example_blob_decode(2), THEN conjunct1, rule_format, OF no]
    uninitialized_pool_rejected
      [where fpa = example_findProgramAddress and fp = "example_account 41",
        OF example_loadAccount(1) example_blob_decode(1), THEN conjunct2, rule_format, OF yes]
    no yes
  show ?thesis by simp
qed

subsection \<open>The fields of a loaded client\<close>

lemma le_value_bounds: "0 \<le> le_value bs \<and> le_value bs < 256 ^ length bs"
proof (induction bs)
  case Nil
  show ?case by simp
next
  case (Cons b bs)
  have "0 \<le> uint b" and "uint b < 256"
    using uint_lt2p [of b] by simp_all
  with Cons show ?case by simp
qed

text \<open>
  C5. After a successful load the key fields of the client are the six 32-byte fields
  of the fetched blob, in the order pool token mint, token account A, token account B,
  mint A, mint B, token program (from offset 1 on), and the three numeric fields are
  the little-endian values of the three 8-byte fields that follow (offsets 193, 201,
  209), each an unsigned 64-bit value.
\<close>

theorem loaded_fields_from_blob:
  assumes "loadAccount L conn addr pid = Inr blob"
    and "loadStableSwap fpa L conn addr pid fp = Inr c"
  shows "poolToken c = PublicKey (subarray 1 32 blob) \<and>
         tokenAccountA c = PublicKey (subarray 33 32 blob) \<and>
         tokenAccountB c = PublicKey (subarray 65 32 blob) \<and>
         mintA c = PublicKey (subarray 97 32 blob) \<and>
         mintB c = PublicKey (subarray 129 32 blob) \<and>
         tokenProgramId c = PublicKey (subarray 161 32 blob) \<and>
         ampFactor c = Numberu64 (le_value (subarray 193 8 blob)) \<and>
         feeNumerator c = Numberu64 (le_value (subarray 201 8 blob)) \<and>
         feeDenominator c = Numberu64 (le_value (subarray 209 8 blob)) \<and>
         in_u64_range (le_value (subarray 193 8 blob)) \<and>
         in_u64_range (le_value (subarray 201 8 blob)) \<and>
         in_u64_range (le_value (subarray 209 8 blob))"
proof -
  from assms obtain d where d: "StableSwapLayout_decode blob = Inr d"
    and c: "poolToken c = PublicKey (tokenPool d)"
      "tokenAccountA c = PublicKey (tokenAccountA_raw d)"
      "tokenAccountB c = PublicKey (tokenAccountB_raw d)"
      "mintA c = PublicKey (mintA_raw d)"
      "mintB c = PublicKey (mintB_raw d)"
      "tokenProgramId c = PublicKey (tokenProgramId_raw d)"
      "ampFactor c = Numberu64_fromBuffer (ampFactor_raw d)"
      "feeNumerator c = Numberu64_fromBuffer (feeNumerator_raw d)"
      "feeDenominator c = Numberu64_fromBuffer (feeDenominator_raw d)"
    by (auto simp: loadStableSwap_Inr)
  from d have len: "length blob = 217"
    and fields: "d = StableSwapLayout_fields (hd blob = 1) blob"
    by (simp_all add: StableSwapLayout_decode_Inr StableSwapLayout_span_def)
  have range: "in_u64_range (le_value (subarray off 8 blob))" if "off + 8 \<le> 217" for off
  proof -
    from that len have "length (subarray off 8 blob) = 8"
      by (simp add: subarray_def)
    with le_value_bounds [of "subarray off 8 blob"] show ?thesis
      by (simp add: in_u64_range_def u64_MAX_def)
  qed
  from c fields len range [of 193] range [of 201] range [of 209] show ?thesis
    by (simp add: StableSwapLayout_fields_def Numberu64_fromBuffer_def)
qed

text \<open>
  The client loaded from the example blob: its token program is key 6, the sixth key
  of the blob, and its fee denominator is 10000, the last eight bytes.
\<close>

theorem loaded_fields_from_blob_witness:
  "poolToken (example_client (example_key 50)) = PublicKey (subarray 1 32 (example_blob 1)) \<and>
   tokenProgramId (example_client (example_key 50))
     = PublicKey (subarray 161 32 (example_blob 1)) \<and>
   PublicKey (subarray 161 32 (example_blob 1)) = example_key 6 \<and>
   feeDenominator (example_client (example_key 50))
     = Numberu64 (le_value (subarray 209 8 (example_blob 1))) \<and>
   le_value (subarray 209 8 (example_blob 1)) = 10000"
proof -
  have "PublicKey (subarray 161 32 (example_blob 1)) = example_key 6"
    and "le_value (subarray 209 8 (example_blob 1)) = 10000"
    by (simp_all add: subarray_def example_blob_def example_key_def)
  with loaded_fields_from_blob [OF example_loadAccount(1) example_load]
  show ?thesis by simp
qed

subsection \<open>The transaction of \<^verbatim>\<open>createStableSwap\<close>\<close>

text \<open>
  The initialize encoder builds an instruction exactly for amounts within the range.
\<close>

lemma createInitSwapInstruction_builds:
  "(\<exists>ix. createInitSwapInstruction tp acct auth tA tB pool dest prog nonce
           (Num amp) (Num fn) (Num fd) = Inr ix) \<longleftrightarrow>
   in_u64_range amp \<and> in_u64_range fn \<and> in_u64_range fd"
  by (auto simp: createInitSwapInstruction_def andThen_eq_Inr toU64_def)

lemma example_ledger_sent: "sent example_ledger = []"
  by (simp add: example_ledger_def)

lemma example_account_publicKey: "publicKey (example_account b) = example_key b"
  by (simp add: example_account_def)

lemma example_rent:
  "minimumBalanceForRentExemption example_ledger StableSwapLayout_span = Inr 2401200"
  "minimumBalanceForRentExemption example_ledger_rent_down StableSwapLayout_span
     = Inl ''429 Too Many Requests''"
  by (simp_all add: example_ledger_def example_ledger_rent_down_def StableSwapLayout_span_def)

text \<open>
  C6, as amended. A call of \<^verbatim>\<open>createStableSwap\<close> first awaits the rent query for the
  span of the layout and then has the initialize instruction built. If the query
  fails, the call fails with the failure of the transport; if the encoder rejects the
  instruction, the call fails with the error of the encoder; in both cases the ledger
  is as it was and nothing has been submitted. Otherwise the call submits exactly one
  transaction: the ledger after the call is the ledger before it with one more entry
  in its list of submitted transactions, on the connection of the call. The
  transaction holds, in order, the create-account request (from the payer, for the new
  account, with the answer of the rent query as lamports, the span as space and the
  swap program as owner) and the initialize instruction; it is signed by the payer and
  the new account, and the payer pays the fee. If the call returns a client, the
  fields of the client are the arguments of the call. The encoder builds the
  instruction exactly when the three amounts are within \<open>0 .. 2^64 - 1\<close>.
\<close>

theorem createStableSwap_transaction:
  assumes "createStableSwap tp L conn fp acct auth tA tB pool mA mB dest prog tok nonce
             amp fn fd = (r, L')"
  shows "(\<forall>message. minimumBalanceForRentExemption L StableSwapLayout_span = Inl message \<longrightarrow>
            r = Inl (TransportError message) \<and> L' = L) \<and>
         (\<forall>balance e.
            minimumBalanceForRentExemption L StableSwapLayout_span = Inr balance \<and>
            createInitSwapInstruction tp acct auth tA tB pool dest prog nonce
              (Num amp) (Num fn) (Num fd) = Inl e \<longrightarrow>
            r = Inl e \<and> L' = L) \<and>
         (\<forall>balance ix.
            minimumBalanceForRentExemption L StableSwapLayout_span = Inr balance \<and>
            createInitSwapInstruction tp acct auth tA tB pool dest prog nonce
              (Num amp) (Num fn) (Num fd) = Inr ix \<longrightarrow>
            L' = L\<lparr>sent := sent L @
              [(conn,
                \<lparr>transaction = \<lparr>instructions =
                   [SystemCreateAccount
                      \<lparr>fromPubkey = publicKey fp,
                       newAccountPubkey = publicKey acct,
                       lamports = balance,
                       space = StableSwapLayout_span,
                       owner = prog\<rparr>,
                    ProgramInstruction ix]\<rparr>,
                 feePayer = publicKey fp,
                 signedBy = [publicKey fp, publicKey acct]\<rparr>)]\<rparr> \<and>
            (\<forall>c. r = Inr c \<longrightarrow>
               c = \<lparr>connection = conn, swapProgramId = prog, tokenProgramId = tok,
                    stableSwap = publicKey acct, poolToken = pool, authority = auth,
                    tokenAccountA = tA, tokenAccountB = tB, mintA = mA, mintB = mB,
                    ampFactor = Numberu64 amp, feeNumerator = Numberu64 fn,
                    feeDenominator = Numberu64 fd, payer = fp\<rparr>)) \<and>
         ((\<exists>ix. createInitSwapInstruction tp acct auth tA tB pool dest prog nonce
                  (Num amp) (Num fn) (Num fd) = Inr ix) \<longleftrightarrow>
          in_u64_range amp \<and> in_u64_range fn \<and> in_u64_range fd)"
proof (intro conjI allI impI)
  fix message
  assume "minimumBalanceForRentExemption L StableSwapLayout_span = Inl message"
  with assms show "r = Inl (TransportError message)" and "L' = L"
    by (simp_all add: createStableSwap_def getMinBalanceRentForExemptStableSwap_def)
next
  fix balance e
  assume "minimumBalanceForRentExemption L StableSwapLayout_span = Inr balance \<and>
          createInitSwapInstruction tp acct auth tA tB pool dest prog nonce
            (Num amp) (Num fn) (Num fd) = Inl e"
  with assms show "r = Inl e" and "L' = L"
    by (simp_all add: createStableSwap_def getMinBalanceRentForExemptStableSwap_def Let_def)
next
  fix balance ix
  assume built:
    "minimumBalanceForRentExemption L StableSwapLayout_span = Inr balance \<and>
     createInitSwapInstruction tp acct auth tA tB pool dest prog nonce
       (Num amp) (Num fn) (Num fd) = Inr ix"
  let ?tx = "Transaction_add
       (Transaction_add Transaction_new
         (SystemCreateAccount
            \<lparr>fromPubkey = publicKey fp, newAccountPubkey = publicKey acct,
             lamports = balance, space = StableSwapLayout_span, owner = prog\<rparr>))
       (ProgramInstruction ix)"
  obtain r0 L0 where
    s: "sendAndConfirmTransaction ''createAccount and InitializeSwap'' L conn ?tx fp [acct]
          = (r0, L0)"
    by (cases "sendAndConfirmTransaction ''createAccount and InitializeSwap'' L conn ?tx
                 fp [acct]")
  from assms built s have L': "L' = L0"
    and r: "\<And>c. r = Inr c \<Longrightarrow>
              c = StableSwap_new conn (publicKey acct) prog tok pool auth tA tB mA mB
                    (Numberu64 amp) (Numberu64 fn) (Numberu64 fd) fp"
    by (auto simp: createStableSwap_def getMinBalanceRentForExemptStableSwap_def Let_def
             split: sum.splits)
  from sendAndConfirmTransaction_sent [OF s] L'
  show "L' = L\<lparr>sent := sent L @
              [(conn,
                \<lparr>transaction = \<lparr>instructions =
                   [SystemCreateAccount
                      \<lparr>fromPubkey = publicKey fp,
                       newAccountPubkey = publicKey acct,
                       lamports = balance,
                       space = StableSwapLayout_span,
                       owner = prog\<rparr>,
                    ProgramInstruction ix]\<rparr>,
                 feePayer = publicKey fp,
                 signedBy = [publicKey fp, publicKey acct]\<rparr>)]\<rparr>"
    by (simp add: Transaction_add_def Transaction_new_def)
  fix c
  assume "r = Inr c"
  from r [OF this]
  show "c = \<lparr>connection = conn, swapProgramId = prog, tokenProgramId = tok,
             stableSwap = publicKey acct, poolToken = pool, authority = auth,
             tokenAccountA = tA, tokenAccountB = tB, mintA = mA, mintB = mB,
             ampFactor = Numberu64 amp, feeNumerator = Numberu64 fn,
             feeDenominator = Numberu64 fd, payer = fp\<rparr>"
    by (simp add: StableSwap_new_def)
next
  show "(\<exists>ix. createInitSwapInstruction tp acct auth tA tB pool dest prog nonce
               (Num amp) (Num fn) (Num fd) = Inr ix) \<longleftrightarrow>
        in_u64_range amp \<and> in_u64_range fn \<and> in_u64_range fd"
    by (rule createInitSwapInstruction_builds)
qed

text \<open>
  Three calls with the same keys. On the example ledger, which had no submission
  before, with the amounts 100, 4 and 10000: one transaction, with 2401200 lamports for
  the 217 bytes, and the client of the arguments. On the ledger whose rent query
  fails: the failure of the transport, and the ledger as it was. On the example ledger
  with the amplification factor \<open>-1\<close>: the error of the encoder, and the ledger as it
  was.
\<close>

theorem createStableSwap_transaction_witness:
  "(\<exists>ix. createInitSwapInstruction (example_key 6) (example_account 20) (example_key 7)
          (example_key 2) (example_key 3) (example_key 1) (example_key 9) (example_key 30)
          255 (Num 100) (Num 4) (Num 10000) = Inr ix \<and>
        sent (snd (createStableSwap (example_key 6) example_ledger example_connection
          (example_account 41) (example_account 20) (example_key 7) (example_key 2)
          (example_key 3) (example_key 1) (example_key 4) (example_key 5) (example_key 9)
          (example_key 30) (example_key 6) 255 100 4 10000))
        = [(example_connection,
            \<lparr>transaction = \<lparr>instructions =
               [SystemCreateAccount
                  \<lparr>fromPubkey = example_key 41, newAccountPubkey = example_key 20,
                   lamports = 2401200, space = 217, owner = example_key 30\<rparr>,
                ProgramInstruction ix]\<rparr>,
             feePayer = example_key 41,
             signedBy = [example_key 41, example_key 20]\<rparr>)]) \<and>
   fst (createStableSwap (example_key 6) example_ledger example_connection
          (example_account 41) (example_account 20) (example_key 7) (example_key 2)
          (example_key 3) (example_key 1) (example_key 4) (example_key 5) (example_key 9)
          (example_key 30) (example_key 6) 255 100 4 10000)
     = Inr (example_client (example_key 7)) \<and>
   createStableSwap (example_key 6) example_ledger_rent_down example_connection
     (example_account 41) (example_account 20) (example_key 7) (example_key 2)
     (example_key 3) (example_key 1) (example_key 4) (example_key 5) (example_key 9)
     (example_key 30) (example_key 6) 255 100 4 10000
     = (Inl (TransportError ''429 Too Many Requests''), example_ledger_rent_down) \<and>
   createStableSwap (example_key 6) example_ledger example_connection
     (example_account 41) (example_account 20) (example_key 7) (example_key 2)
     (example_key 3) (example_key 1) (example_key 4) (example_key 5) (example_key 9)
     (example_key 30) (example_key 6) 255 (- 1) 4 10000
     = (Inl ValueOutOfRangeError, example_ledger) \<and>
   in_u64_range 100 \<and> in_u64_range 4 \<and> in_u64_range 10000 \<and> \<not> in_u64_range (- 1)"
proof -
  have ranges: "in_u64_range 100" "in_u64_range 4" "in_u64_range 10000"
    "\<not> in_u64_range (- 1)"
    by (simp_all add: in_u64_range_def u64_MAX_def)
  obtain L1 where created:
    "createStableSwap (example_key 6) example_ledger example_connection
       (example_account 41) (example_account 20) (example_key 7) (example_key 2)
       (example_key 3) (example_key 1) (example_key 4) (example_key 5) (example_key 9)
       (example_key 30) (example_key 6) 255 100 4 10000
     = (Inr (example_client (example_key 7)), L1)"
    using example_create [of "example_key 7"] by blast
  from createStableSwap_transaction
      [OF created, THEN conjunct2, THEN conjunct2, THEN conjunct2] ranges
  obtain ix where ix:
    "createInitSwapInstruction (example_key 6) (example_account 20) (example_key 7)
       (example_key 2) (example_key 3) (example_key 1) (example_key 9) (example_key 30)
       255 (Num 100) (Num 4) (Num 10000) = Inr ix"
    by blast
  from createStableSwap_transaction
      [OF created, THEN conjunct2, THEN conjunct2, THEN conjunct1, rule_format,
        OF conjI [OF example_rent(1) ix]]
  have "sent L1
        = [(example_connection,
            \<lparr>transaction = \<lparr>instructions =
               [SystemCreateAccount
                  \<lparr>fromPubkey = example_key 41, newAccountPubkey = example_key 20,
                   lamports = 2401200, space = 217, owner = example_key 30\<rparr>,
                ProgramInstruction ix]\<rparr>,
             feePayer = example_key 41,
             signedBy = [example_key 41, example_key 20]\<rparr>)]"
    by (simp add: example_ledger_sent example_account_publicKey StableSwapLayout_span_def)
  with ix created have first:
    "\<exists>ix. createInitSwapInstruction (example_key 6) (example_account 20) (example_key 7)
          (example_key 2) (example_key 3) (example_key 1) (example_key 9) (example_key 30)
          255 (Num 100) (Num 4) (Num 10000) = Inr ix \<and>
        sent (snd (createStableSwap (example_key 6) example_ledger example_connection
          (example_account 41) (example_account 20) (example_key 7) (example_key 2)
          (example_key 3) (example_key 1) (example_key 4) (example_key 5) (example_key 9)
          (example_key 30) (example_key 6) 255 100 4 10000))
        = [(example_connection,
            \<lparr>transaction = \<lparr>instructions =
               [SystemCreateAccount
                  \<lparr>fromPubkey = example_key 41, newAccountPubkey = example_key 20,
                   lamports = 2401200, space = 217, owner = example_key 30\<rparr>,
                ProgramInstruction ix]\<rparr>,
             feePayer = example_key 41,
             signedBy = [example_key 41, example_key 20]\<rparr>)]"
    by auto
  obtain r2 L2 where down:
    "createStableSwap (example_key 6) example_ledger_rent_down example_connection
       (example_account 41) (example_account 20) (example_key 7) (example_key 2)
       (example_key 3) (example_key 1) (example_key 4) (example_key 5) (example_key 9)
       (example_key 30) (example_key 6) 255 100 4 10000 = (r2, L2)"
    by (rule prod.exhaust)
  from createStableSwap_transaction [OF down, THEN conjunct1, rule_format, OF example_rent(2)]
    down
  have second:
    "createStableSwap (example_key 6) example_ledger_rent_down example_connection
       (example_account 41) (example_account 20) (example_key 7) (example_key 2)
       (example_key 3) (example_key 1) (example_key 4) (example_key 5) (example_key 9)
       (example_key 30) (example_key 6) 255 100 4 10000
     = (Inl (TransportError ''429 Too Many Requests''), example_ledger_rent_down)"
    by simp
  have rejected:
    "createInitSwapInstruction (example_key 6) (example_account 20) (example_key 7)
       (example_key 2) (example_key 3) (example_key 1) (example_key 9) (example_key 30)
       255 (Num (- 1)) (Num 4) (Num 10000) = Inl ValueOutOfRangeError"
    by (simp add: createInitSwapInstruction_def range_defs)
  obtain r3 L3 where out:
    "createStableSwap (example_key 6) example_ledger example_connection
       (example_account 41) (example_account 20) (example_key 7) (example_key 2)
       (example_key 3) (example_key 1) (example_key 4) (example_key 5) (example_key 9)
       (example_key 30) (example_key 6) 255 (- 1) 4 10000 = (r3, L3)"
    by (rule prod.exhaust)
  from createStableSwap_transaction
      [OF out, THEN conjunct2, THEN conjunct1, rule_format,
        OF conjI [OF example_rent(1) rejected]]
    out
  have third:
    "createStableSwap (example_key 6) example_ledger example_connection
       (example_account 41) (example_account 20) (example_key 7) (example_key 2)
       (example_key 3) (example_key 1) (example_key 4) (example_key 5) (example_key 9)
       (example_key 30) (example_key 6) 255 (- 1) 4 10000
     = (Inl ValueOutOfRangeError, example_ledger)"
    by simp
  from first created second third ranges show ?thesis
    by simp
qed

text \<open>
  C6 as stated fails when the rent query fails. Line 259 awaits the query before the
  transaction is made (line 262), the instruction built (line 272) or anything
  submitted (line 287). On the ledger whose rent query fails, a call with amounts in
  range fails with the failure of the transport, the ledger is as it was, and its list
  of submitted transactions is empty: no transaction has been submitted.
\<close>

theorem createStableSwap_submits_nothing_counterexample:
  "createStableSwap (example_key 6) example_ledger_rent_down example_connection
      (example_account 41) (example_account 20) (example_key 7) (example_key 2)
      (example_key 3) (example_key 1) (example_key 4) (example_key 5) (example_key 9)
      (example_key 30) (example_key 6) 255 100 4 10000
     = (Inl (TransportError ''429 Too Many Requests''), example_ledger_rent_down) \<and>
   sent example_ledger_rent_down = []"
  by (simp add: createStableSwap_def getMinBalanceRentForExemptStableSwap_def
      example_ledger_rent_down_def example_ledger_def)

subsection \<open>Amounts out of range\<close>

text \<open>
  C7. Each of the four encoders fails with \<open>ValueOutOfRangeError\<close> exactly when one
  of its amounts is negative or above \<open>2^64 - 1\<close>; an amount within the range is not
  rejected. An encoder takes no ledger and returns none, so it performs no I/O; and
  when the encoder rejects an amount, \<^verbatim>\<open>swap\<close>, \<^verbatim>\<open>deposit\<close> and \<^verbatim>\<open>withdraw\<close> fail
  with that error and leave the ledger as it was: nothing has been submitted.
\<close>

theorem amounts_out_of_range_rejected:
  "(createInitSwapInstruction tp acct auth tA tB pool dest prog nonce a1 a2 a3
      = Inl ValueOutOfRangeError \<longleftrightarrow>
    \<not> (in_u64_range (amount_value a1) \<and> in_u64_range (amount_value a2) \<and>
       in_u64_range (amount_value a3))) \<and>
   (swapInstruction p auth us ps pd ud prog tok a1 a2 = Inl ValueOutOfRangeError \<longleftrightarrow>
    \<not> (in_u64_range (amount_value a1) \<and> in_u64_range (amount_value a2))) \<and>
   (depositInstruction p auth uA uB pA pB mint dst prog tok a1 a2 a3
      = Inl ValueOutOfRangeError \<longleftrightarrow>
    \<not> (in_u64_range (amount_value a1) \<and> in_u64_range (amount_value a2) \<and>
       in_u64_range (amount_value a3))) \<and>
   (withdrawInstruction p auth mint src pA pB uA uB prog tok a1 a2 a3
      = Inl ValueOutOfRangeError \<longleftrightarrow>
    \<not> (in_u64_range (amount_value a1) \<and> in_u64_range (amount_value a2) \<and>
       in_u64_range (amount_value a3))) \<and>
   (\<not> (in_u64_range (amount_value a1) \<and> in_u64_range (amount_value a2)) \<longrightarrow>
      swap c L us ps pd ud a1 a2 = (Inl ValueOutOfRangeError, c, L)) \<and>
   (\<not> (in_u64_range (amount_value a1) \<and> in_u64_range (amount_value a2) \<and>
       in_u64_range (amount_value a3)) \<longrightarrow>
      deposit c L uA uB dst a1 a2 a3 = (Inl ValueOutOfRangeError, c, L)) \<and>
   (\<not> (in_u64_range (amount_value a1) \<and> in_u64_range (amount_value a2) \<and>
       in_u64_range (amount_value a3)) \<longrightarrow>
      withdraw c L uA uB src a1 a2 a3 = (Inl ValueOutOfRangeError, c, L))"
proof -
  have enc:
    "createInitSwapInstruction tp acct auth tA tB pool dest prog nonce a1 a2 a3
       = Inl ValueOutOfRangeError \<longleftrightarrow>
     \<not> (in_u64_range (amount_value a1) \<and> in_u64_range (amount_value a2) \<and>
        in_u64_range (amount_value a3))"
    "swapInstruction p auth us ps pd ud prog tok a1 a2 = Inl ValueOutOfRangeError \<longleftrightarrow>
     \<not> (in_u64_range (amount_value a1) \<and> in_u64_range (amount_value a2))"
    "depositInstruction p auth uA uB pA pB mint dst prog tok a1 a2 a3
       = Inl ValueOutOfRangeError \<longleftrightarrow>
     \<not> (in_u64_range (amount_value a1) \<and> in_u64_range (amount_value a2) \<and>
        in_u64_range (amount_value a3))"
    "withdrawInstruction p auth mint src pA pB uA uB prog tok a1 a2 a3
       = Inl ValueOutOfRangeError \<longleftrightarrow>
     \<not> (in_u64_range (amount_value a1) \<and> in_u64_range (amount_value a2) \<and>
        in_u64_range (amount_value a3))"
    for tp acct auth tA tB pool dest prog nonce p us ps pd ud tok uA uB pA pB mint dst src
    by (auto simp: encoder_defs andThen_eq_Inl toU64_def)
  have "swap c L us ps pd ud a1 a2 = (Inl ValueOutOfRangeError, c, L)"
    if "\<not> (in_u64_range (amount_value a1) \<and> in_u64_range (amount_value a2))"
    using that enc(2) [of "stableSwap c" "authority c" us ps pd ud "swapProgramId c"
        "tokenProgramId c"]
    by (simp add: swap_def)
  moreover have "deposit c L uA uB dst a1 a2 a3 = (Inl ValueOutOfRangeError, c, L)"
    if "\<not> (in_u64_range (amount_value a1) \<and> in_u64_range (amount_value a2) \<and>
          in_u64_range (amount_value a3))"
    using that enc(3) [of "stableSwap c" "authority c" uA uB "tokenAccountA c"
        "tokenAccountB c" "poolToken c" dst "swapProgramId c" "tokenProgramId c"]
    by (simp add: deposit_def)
  moreover have "withdraw c L uA uB src a1 a2 a3 = (Inl ValueOutOfRangeError, c, L)"
    if "\<not> (in_u64_range (amount_value a1) \<and> in_u64_range (amount_value a2) \<and>
          in_u64_range (amount_value a3))"
    using that enc(4) [of "stableSwap c" "authority c" "poolToken c" src "tokenAccountA c"
        "tokenAccountB c" uA uB "swapProgramId c" "tokenProgramId c"]
    by (simp add: withdraw_def)
  ultimately show ?thesis
    by (simp add: enc)
qed

text \<open>
  With the amounts \<open>-1\<close>, \<open>2^64\<close> and 5 every encoder rejects and the three methods
  leave the example ledger untouched; with 0, \<open>2^64 - 1\<close> and 5 no encoder rejects.
\<close>

theorem amounts_out_of_range_rejected_witness:
  "swapInstruction (example_key 20) (example_key 50) (example_key 11) (example_key 2)
     (example_key 3) (example_key 12) (example_key 30) (example_key 6)
     (Num (- 1)) (U64 (Numberu64 (2 ^ 64))) = Inl ValueOutOfRangeError \<and>
   createInitSwapInstruction (example_key 6) (example_account 20) (example_key 50)
     (example_key 2) (example_key 3) (example_key 1) (example_key 9) (example_key 30) 255
     (Num (- 1)) (U64 (Numberu64 (2 ^ 64))) (Num 5) = Inl ValueOutOfRangeError \<and>
   depositInstruction (example_key 20) (example_key 50) (example_key 11) (example_key 12)
     (example_key 2) (example_key 3) (example_key 1) (example_key 13) (example_key 30)
     (example_key 6) (Num (- 1)) (U64 (Numberu64 (2 ^ 64))) (Num 5)
     = Inl ValueOutOfRangeError \<and>
   withdrawInstruction (example_key 20) (example_key 50) (example_key 1) (example_key 13)
     (example_key 2) (example_key 3) (example_key 11) (example_key 12) (example_key 30)
     (example_key 6) (Num (- 1)) (U64 (Numberu64 (2 ^ 64))) (Num 5)
     = Inl ValueOutOfRangeError \<and>
   swap (example_client (example_key 50)) example_ledger (example_key 11) (example_key 2)
     (example_key 3) (example_key 12) (Num (- 1)) (U64 (Numberu64 (2 ^ 64)))
     = (Inl ValueOutOfRangeError, example_client (example_key 50), example_ledger) \<and>
   deposit (example_client (example_key 50)) example_ledger (example_key 11)
     (example_key 12) (example_key 13) (Num (- 1)) (U64 (Numberu64 (2 ^ 64))) (Num 5)
     = (Inl ValueOutOfRangeError, example_client (example_key 50), example_ledger) \<and>
   withdraw (example_client (example_key 50)) example_ledger (example_key 11)
     (example_key 12) (example_key 13) (Num (- 1)) (U64 (Numberu64 (2 ^ 64))) (Num 5)
     = (Inl ValueOutOfRangeError, example_client (example_key 50), example_ledger) \<and>
   swapInstruction (example_key 20) (example_key 50) (example_key 11) (example_key 2)
     (example_key 3) (example_key 12) (example_key 30) (example_key 6)
     (Num 0) (U64 (Numberu64 (2 ^ 64 - 1))) \<noteq> Inl ValueOutOfRangeError \<and>
   createInitSwapInstruction (example_key 6) (example_account 20) (example_key 50)
     (example_key 2) (example_key 3) (example_key 1) (example_key 9) (example_key 30) 255
     (Num 0) (U64 (Numberu64 (2 ^ 64 - 1))) (Num 5) \<noteq> Inl ValueOutOfRangeError \<and>
   depositInstruction (example_key 20) (example_key 50) (example_key 11) (example_key 12)
     (example_key 2) (example_key 3) (example_key 1) (example_key 13) (example_key 30)
     (example_key 6) (Num 0) (U64 (Numberu64 (2 ^ 64 - 1))) (Num 5)
     \<noteq> Inl ValueOutOfRangeError \<and>
   withdrawInstruction (example_key 20) (example_key 50) (example_key 1) (example_key 13)
     (example_key 2) (example_key 3) (example_key 11) (example_key 12) (example_key 30)
     (example_key 6) (Num 0) (U64 (Numberu64 (2 ^ 64 - 1))) (Num 5)
     \<noteq> Inl ValueOutOfRangeError"
proof -
  have bad: "\<not> in_u64_range (amount_value (Num (- 1)))"
    "\<not> in_u64_range (amount_value (U64 (Numberu64 (2 ^ 64))))"
    and good: "in_u64_range (amount_value (Num 0))"
    "in_u64_range (amount_value (U64 (Numberu64 (2 ^ 64 - 1))))"
    "in_u64_range (amount_value (Num 5))"
    by (simp_all add: in_u64_range_def u64_MAX_def)
  note rejected = amounts_out_of_range_rejected
    [where ?a1.0 = "Num (- 1)" and ?a2.0 = "U64 (Numberu64 (2 ^ 64))" and ?a3.0 = "Num 5"
       and c = "example_client (example_key 50)" and L = example_ledger
       and tp = "example_key 6" and acct = "example_account 20" and auth = "example_key 50"
       and tA = "example_key 2" and tB = "example_key 3" and pool = "example_key 1"
       and dest = "example_key 9" and prog = "example_key 30" and nonce = 255
       and p = "example_key 20" and us = "example_key 11" and ps = "example_key 2"
       and pd = "example_key 3" and ud = "example_key 12" and tok = "example_key 6"
       and uA = "example_key 11" and uB = "example_key 12" and pA = "example_key 2"
       and pB = "example_key 3" and mint = "example_key 1" and dst = "example_key 13"
       and src = "example_key 13"]
  note accepted = amounts_out_of_range_rejected
    [where ?a1.0 = "Num 0" and ?a2.0 = "U64 (Numberu64 (2 ^ 64 - 1))" and ?a3.0 = "Num 5"
       and tp = "example_key 6" and acct = "example_account 20" and auth = "example_key 50"
       and tA = "example_key 2" and tB = "example_key 3" and pool = "example_key 1"
       and dest = "example_key 9" and prog = "example_key 30" and nonce = 255
       and p = "example_key 20" and us = "example_key 11" and ps = "example_key 2"
       and pd = "example_key 3" and ud = "example_key 12" and tok = "example_key 6"
       and uA = "example_key 11" and uB = "example_key 12" and pA = "example_key 2"
       and pB = "example_key 3" and mint = "example_key 1" and dst = "example_key 13"
       and src = "example_key 13"]
  from rejected accepted bad good show ?thesis
    by simp
qed

subsection \<open>The methods leave the client as it is\<close>

text \<open>
  C8. After \<^verbatim>\<open>swap\<close>, \<^verbatim>\<open>deposit\<close> or \<^verbatim>\<open>withdraw\<close>, whatever the result, the object
  the method was called on is the object it was before: every field (the pool address,
  the two program ids, the pool token, the authority, the token accounts, the mints,
  the three numbers, the payer, and the connection handle too) is unchanged.
\<close>

theorem methods_keep_client:
  "(swap c L us ps pd ud a m = (r, c', L') \<longrightarrow> c' = c) \<and>
   (deposit c L uA uB pa a1 a2 a3 = (r, c', L') \<longrightarrow> c' = c) \<and>
   (withdraw c L uA uB pa a1 a2 a3 = (r, c', L') \<longrightarrow> c' = c)"
  by (auto simp: swap_def deposit_def withdraw_def split: sum.splits prod.splits)

text \<open>
  Three calls on the example ledger: a swap that is confirmed, a deposit that the
  transport refuses (the payer is key 40), and a withdrawal that the encoder rejects.
  In each the client after the call is the client before it.
\<close>

theorem methods_keep_client_witness:
  "fst (swap (example_client (example_key 50)) example_ledger (example_key 11)
          (example_key 2) (example_key 3) (example_key 12) (Num 1000) (Num 990))
     = Inr ''5VERv8NMvzbJMEkV8xnrLkEaWRtSz9CosKDYjCJjBRnb'' \<and>
   fst (snd (swap (example_client (example_key 50)) example_ledger (example_key 11)
          (example_key 2) (example_key 3) (example_key 12) (Num 1000) (Num 990)))
     = example_client (example_key 50) \<and>
   fst (deposit ((example_client (example_key 50))\<lparr>payer := example_account 40\<rparr>)
          example_ledger (example_key 11) (example_key 12) (example_key 13)
          (Num 100) (Num 100) (Num 1))
     = Inl (SubmissionError ''insufficient funds'') \<and>
   fst (snd (deposit ((example_client (example_key 50))\<lparr>payer := example_account 40\<rparr>)
          example_ledger (example_key 11) (example_key 12) (example_key 13)
          (Num 100) (Num 100) (Num 1)))
     = (example_client (example_key 50))\<lparr>payer := example_account 40\<rparr> \<and>
   fst (withdraw (example_client (example_key 50)) example_ledger (example_key 11)
          (example_key 12) (example_key 13) (Num (- 1)) (Num 1) (Num 1))
     = Inl ValueOutOfRangeError \<and>
   fst (snd (withdraw (example_client (example_key 50)) example_ledger (example_key 11)
          (example_key 12) (example_key 13) (Num (- 1)) (Num 1) (Num 1)))
     = example_client (example_key 50)"
proof -
  let ?c = "example_client (example_key 50)"
  let ?c40 = "(example_client (example_key 50))\<lparr>payer := example_account 40\<rparr>"
  have results:
    "fst (swap ?c example_ledger (example_key 11) (example_key 2) (example_key 3)
            (example_key 12) (Num 1000) (Num 990))
       = Inr ''5VERv8NMvzbJMEkV8xnrLkEaWRtSz9CosKDYjCJjBRnb''"
    "fst (deposit ?c40 example_ledger (example_key 11) (example_key 12) (example_key 13)
            (Num 100) (Num 100) (Num 1))
       = Inl (SubmissionError ''insufficient funds'')"
    "fst (withdraw ?c example_ledger (example_key 11) (example_key 12) (example_key 13)
            (Num (- 1)) (Num 1) (Num 1))
       = Inl ValueOutOfRangeError"
    by (simp_all add: swap_def deposit_def withdraw_def encoder_defs range_defs
        sendAndConfirmTransaction_def example_ledger_def example_connection_def
        example_account_def example_client_def Transaction_add_def Let_def numeral_3_eq_3
        split: prod.splits)
  obtain r1 c1 L1 where s:
    "swap ?c example_ledger (example_key 11) (example_key 2) (example_key 3)
       (example_key 12) (Num 1000) (Num 990) = (r1, c1, L1)"
    by (rule prod_cases3)
  obtain r2 c2 L2 where d:
    "deposit ?c40 example_ledger (example_key 11) (example_key 12) (example_key 13)
       (Num 100) (Num 100) (Num 1) = (r2, c2, L2)"
    by (rule prod_cases3)
  obtain r3 c3 L3 where w:
    "withdraw ?c example_ledger (example_key 11) (example_key 12) (example_key 13)
       (Num (- 1)) (Num 1) (Num 1) = (r3, c3, L3)"
    by (rule prod_cases3)
  from methods_keep_client [THEN conjunct1, rule_format, OF s]
    methods_keep_client [THEN conjunct2, THEN conjunct1, rule_format, OF d]
    methods_keep_client [THEN conjunct2, THEN conjunct2, rule_format, OF w]
  have "c1 = ?c" and "c2 = ?c40" and "c3 = ?c" .
  with s d w have
    "fst (snd (swap ?c example_ledger (example_key 11) (example_key 2) (example_key 3)
       (example_key 12) (Num 1000) (Num 990))) = ?c"
    "fst (snd (deposit ?c40 example_ledger (example_key 11) (example_key 12)
       (example_key 13) (Num 100) (Num 100) (Num 1))) = ?c40"
    "fst (snd (withdraw ?c example_ledger (example_key 11) (example_key 12)
       (example_key 13) (Num (- 1)) (Num 1) (Num 1))) = ?c"
    by simp_all
  with results show ?thesis by simp
qed

subsection \<open>What a failure of the loader carries\<close>




subsection \<open>The token program of a loaded client\<close>

text \<open>
  C10. After a successful load the token program id of the client is the key made of
  the token-program field of the decoded blob. It depends on the blob alone: two
  successful loads that fetched the same blob, through whatever connections, at
  whatever addresses, under whatever program ids, for whatever payers and with whatever
  derivation, give the same token program id.
\<close>

theorem tokenProgramId_from_chain:
  assumes "loadAccount L conn addr pid = Inr blob"
    and "StableSwapLayout_decode blob = Inr d"
    and "loadStableSwap fpa L conn addr pid fp = Inr c"
    and "loadAccount L' conn' addr' pid' = Inr blob"
    and "loadStableSwap fpa' L' conn' addr' pid' fp' = Inr c'"
  shows "tokenProgramId c = PublicKey (tokenProgramId_raw d) \<and>
         tokenProgramId c' = tokenProgramId c"
  using assms by (auto simp: loadStableSwap_Inr)

text \<open>
  The pools at keys 20 and 23 of the example ledger hold the same blob. Loaded through
  two connections, under the programs 30 and 31 and for the payers 41 and 42, both
  clients have the token program of the blob, key 6.
\<close>

theorem tokenProgramId_from_chain_witness:
  "\<exists>c'. loadStableSwap example_findProgramAddress example_ledger
          \<lparr>endpoint = ''http://localhost:8900'', maxAttempts = 5\<rparr>
          (example_key 23) (example_key 31) (example_account 42) = Inr c' \<and>
        tokenProgramId c' = tokenProgramId (example_client (example_key 50)) \<and>
        tokenProgramId (example_client (example_key 50))
          = PublicKey (tokenProgramId_raw (StableSwapLayout_fields True (example_blob 1))) \<and>
        tokenProgramId c' = example_key 6"
proof -
  from example_load_other obtain c' where other:
    "loadStableSwap example_findProgramAddress example_ledger
       \<lparr>endpoint = ''http://localhost:8900'', maxAttempts = 5\<rparr>
       (example_key 23) (example_key 31) (example_account 42) = Inr c'"
    by blast
  have "tokenProgramId (example_client (example_key 50)) = example_key 6"
    by (simp add: example_client_def)
  with tokenProgramId_from_chain
    [OF example_loadAccount(1) example_blob_decode(1) example_load example_loadAccount(2) other]
    other
  show ?thesis by simp
qed

end
